theory Spec2Isabelle
  imports Complex_Main "HOL-Library.Sublist" "HOL-Library.AList"
begin

section \<open>JavaScript values\<close>

text \<open>
  A JavaScript number is NaN, an infinity or a finite value; the finite doubles are
  rationals, and \<open><\<close> on them is the order of the rationals. Every comparison with
  NaN is false, which is why \<open>js_lt\<close> is not the negation of anything.
\<close>

datatype jsnum = NaN | PInf | NInf | Fin rat

fun js_lt :: "jsnum \<Rightarrow> jsnum \<Rightarrow> bool" where
  "js_lt NaN _ = False"
| "js_lt _ NaN = False"
| "js_lt (Fin a) (Fin b) = (a < b)"
| "js_lt (Fin _) PInf = True"
| "js_lt NInf (Fin _) = True"
| "js_lt NInf PInf = True"
| "js_lt _ _ = False"

text \<open>\<open>Number.isInteger\<close>: finite and without a fractional part.\<close>

fun isInteger :: "jsnum \<Rightarrow> bool" where
  "isInteger (Fin q) = (of_int \<lfloor>q\<rfloor> = q)"
| "isInteger _ = False"

text \<open>
  The values that \<open>JSON.parse\<close> returns and that the card puts into a request body.
  An object is an association list; \<open>undefined\<close> is \<open>None\<close> of an option.
\<close>

datatype jsval =
    VNull
  | VBool bool
  | VNum jsnum
  | VStr string
  | VArr "jsval list"
  | VObj "(string \<times> jsval) list"

text \<open>Truthiness, as \<open>!t\<close> and \<open>a || b\<close> test it.\<close>

fun truthy :: "jsval \<Rightarrow> bool" where
  "truthy VNull = False"
| "truthy (VBool b) = b"
| "truthy (VNum n) = (n \<noteq> NaN \<and> n \<noteq> Fin 0)"
| "truthy (VStr s) = (s \<noteq> [])"
| "truthy (VArr _) = True"
| "truthy (VObj _) = True"

text \<open>
  \<open>out?.token\<close>, \<open>json?.message\<close>: reading a property of a decoded body. Only an
  object can carry the properties the card reads (token, message, transaction_id, code);
  on null, a string, a number, a boolean or an array the read gives \<open>undefined\<close>.
\<close>

fun get_prop :: "jsval \<Rightarrow> string \<Rightarrow> jsval option" where
  "get_prop (VObj kvs) k = map_of kvs k"
| "get_prop _ k = None"

text \<open>
  The built-ins of the JavaScript runtime that the card calls and that are no code of this
  repository are parameters of the model: \<open>Number\<close> on a string, \<open>JSON.parse\<close>
  (\<open>None\<close> when it throws), \<open>JSON.stringify\<close> and the conversion of a value to a
  string in a template literal or in \<open>new Error(v)\<close>.
\<close>

record runtime =
  js_Number :: "string \<Rightarrow> jsnum"
  JSON_parse :: "string \<Rightarrow> jsval option"
  JSON_stringify :: "jsval \<Rightarrow> string"
  ToString :: "jsval \<Rightarrow> string"

text \<open>
  \<open>String.prototype.trim\<close>. A character of the model is one code unit below U+0100, so
  the white space and line terminators are TAB, LF, VT, FF, CR, SPACE and NBSP.
\<close>

definition is_space :: "char \<Rightarrow> bool" where
  "is_space c = (of_char c \<in> {9, 10, 11, 12, 13, 32, 160 :: nat})"

definition trim :: "string \<Rightarrow> string" where
  "trim s = rev (dropWhile is_space (rev (dropWhile is_space s)))"

section \<open>The state of the card\<close>

text \<open>
  \<open>HlaPrintCard\<close> and \<open>HlaPrintCardView\<close> declare the same \<open>useState\<close> cells, with
  the same initial values. The token is declared a string and receives whatever truthy
  value the login response carries under \<open>token\<close>.
\<close>

datatype stage = Login | Ready | Sending

datatype toast_type = Success | Error

record toast =
  toast_type :: toast_type
  msg :: string

datatype page_size = A4 | A3 | Letter

datatype orientation = Auto | Portrait | Landscape

fun page_size_str :: "page_size \<Rightarrow> string" where
  "page_size_str A4 = ''A4''"
| "page_size_str A3 = ''A3''"
| "page_size_str Letter = ''Letter''"

fun orientation_str :: "orientation \<Rightarrow> string" where
  "orientation_str Auto = ''auto''"
| "orientation_str Portrait = ''portrait''"
| "orientation_str Landscape = ''landscape''"

record card =
  stage :: stage
  toast :: "toast option"
  email :: string
  password :: string
  token :: jsval
  deviceName :: string
  fileUrl :: string
  copies :: jsnum
  color :: bool
  duplex :: bool
  pageSize :: page_size
  orientation :: orientation
  rangeStart :: string
  rangeEnd :: string

definition initial_card :: card where
  "initial_card =
     \<lparr> stage = Login, toast = None, email = [], password = [], token = VStr [],
       deviceName = [], fileUrl = [], copies = Fin 1, color = False, duplex = True,
       pageSize = A4, orientation = Auto, rangeStart = [], rangeEnd = [] \<rparr>"

section \<open>validateBeforeSend\<close>

text \<open>
  Four of the messages hold the signs U+2264 and U+2265, written here by their UTF-8
  bytes; nothing below depends on their length.
\<close>

definition le_sign :: string where
  "le_sign = [char_of (0xE2::nat), char_of (0x89::nat), char_of (0xA4::nat)]"

definition ge_sign :: string where
  "ge_sign = [char_of (0xE2::nat), char_of (0x89::nat), char_of (0xA5::nat)]"

definition msg_login :: string where
  "msg_login = ''Please login first.''"

definition msg_device_required :: string where
  "msg_device_required = ''Device name is required.''"

definition msg_device_length :: string where
  "msg_device_length = ''Device name must be '' @ le_sign @ '' 23 characters.''"

definition msg_file_required :: string where
  "msg_file_required = ''File URL is required.''"

definition msg_range_incomplete :: string where
  "msg_range_incomplete = ''If using page range, set both start and end.''"

definition msg_start_integer :: string where
  "msg_start_integer = ''Page start must be an integer '' @ ge_sign @ '' 1.''"

definition msg_end_integer :: string where
  "msg_end_integer = ''Page end must be an integer '' @ ge_sign @ '' 1.''"

definition msg_end_before_start :: string where
  "msg_end_before_start = ''Page end must be '' @ ge_sign @ '' page start.''"

definition msg_copies :: string where
  "msg_copies = ''Copies must be between 1 and 100.''"

text \<open>\<open>hasStart\<close> and \<open>hasEnd\<close>: the field has a character that \<open>trim\<close> keeps.\<close>

definition hasStart :: "card \<Rightarrow> bool" where
  "hasStart c = (length (trim (rangeStart c)) > 0)"

definition hasEnd :: "card \<Rightarrow> bool" where
  "hasEnd c = (length (trim (rangeEnd c)) > 0)"

text \<open>The block under \<open>if (hasStart && hasEnd)\<close>, with its three early returns.\<close>

definition range_block :: "runtime \<Rightarrow> card \<Rightarrow> string option" where
  "range_block rt c =
     (let s = js_Number rt (rangeStart c); e = js_Number rt (rangeEnd c) in
      if \<not> isInteger s \<or> js_lt s (Fin 1) then Some msg_start_integer
      else if \<not> isInteger e \<or> js_lt e (Fin 1) then Some msg_end_integer
      else if js_lt e s then Some msg_end_before_start
      else None)"

text \<open>
  The function has the same text in both cards. \<open>None\<close> is the \<open>null\<close> of the
  source.
\<close>

definition validateBeforeSend :: "runtime \<Rightarrow> card \<Rightarrow> string option" where
  "validateBeforeSend rt c =
     (if \<not> truthy (token c) then Some msg_login
      else if deviceName c = [] then Some msg_device_required
      else if length (deviceName c) > 23 then Some msg_device_length
      else if fileUrl c = [] then Some msg_file_required
      else if hasStart c \<noteq> hasEnd c then Some msg_range_incomplete
      else
        (case (if hasStart c \<and> hasEnd c then range_block rt c else None) of
           Some m \<Rightarrow> Some m
         | None \<Rightarrow>
             if js_lt (copies c) (Fin 1) \<or> js_lt (Fin 100) (copies c) then Some msg_copies
             else None))"

section \<open>The request body\<close>

text \<open>
  \<open>sendPrint\<close> builds \<open>printFile\<close> and \<open>body\<close> before it calls the network; the two
  bindings have the same text in both cards. The range is added under
  \<open>if (rangeStart && rangeEnd)\<close>: both strings are non-empty.
\<close>

definition printFile :: "runtime \<Rightarrow> card \<Rightarrow> jsval" where
  "printFile rt c =
     VObj
       ([(''filename'', VStr (fileUrl c)),
         (''color'', VBool (color c)),
         (''double_sided'', VBool (duplex c)),
         (''page_size'', VStr (page_size_str (pageSize c))),
         (''copies'', VNum (copies c)),
         (''page_orientation'', VStr (orientation_str (orientation c)))]
        @ (if rangeStart c \<noteq> [] \<and> rangeEnd c \<noteq> []
           then [(''pages_start'', VNum (js_Number rt (rangeStart c))),
                 (''page_end'', VNum (js_Number rt (rangeEnd c)))]
           else []))"

definition request_body :: "runtime \<Rightarrow> card \<Rightarrow> jsval" where
  "request_body rt c =
     VObj [(''device_name'', VStr (deviceName c)), (''print_files'', VArr [printFile rt c])]"

section \<open>The network\<close>

text \<open>
  \<open>hubspot.fetch\<close> is the environment: a request either rejects with a thrown value, of
  which the cards read the message only, or resolves to a response. \<open>res.ok\<close> is the
  status being in 200..299. The world is the state of the card and the requests sent so
  far.
\<close>

datatype js_error = JsError string

record request =
  req_url :: string
  req_method :: string
  req_headers :: "(string \<times> string) list"
  req_body :: "string option"

record response =
  res_status :: nat
  res_headers :: "(string \<times> string) list"
  res_text :: string

datatype fetch_outcome = Rejected js_error | Resolved response

record init =
  init_method :: "string option"
  init_headers :: "(string \<times> string) list"
  init_body :: "string option"

record world =
  ui :: card
  sent :: "request list"

definition ok :: "response \<Rightarrow> bool" where
  "ok res = (200 \<le> res_status res \<and> res_status res \<le> 299)"

text \<open>An object spread: a key already there keeps its place and takes the new value.\<close>

definition spread :: "(string \<times> string) list \<Rightarrow> (string \<times> string) list \<Rightarrow> (string \<times> string) list" where
  "spread base extra = foldl (\<lambda>acc kv. AList.update (fst kv) (snd kv) acc) base extra"

definition make_request :: "string \<Rightarrow> init \<Rightarrow> request" where
  "make_request u i =
     \<lparr> req_url = u,
       req_method = (case init_method i of None \<Rightarrow> ''GET'' | Some m \<Rightarrow> m),
       req_headers = spread [(''Content-Type'', ''application/json'')] (init_headers i),
       req_body = init_body i \<rparr>"

text \<open>A status in a template literal: the decimal digits of the number.\<close>

function string_of_nat :: "nat \<Rightarrow> string" where
  "string_of_nat n =
     (if n < 10 then [''0123456789'' ! n]
      else string_of_nat (n div 10) @ [''0123456789'' ! (n mod 10)])"
  by pat_completeness auto
termination
  by (relation "measure id") auto

declare string_of_nat.simps [simp del]

definition setToast :: "toast_type \<Rightarrow> string \<Rightarrow> world \<Rightarrow> world" where
  "setToast ty m w = w\<lparr>ui := (ui w)\<lparr>toast := Some \<lparr>toast_type = ty, msg = m\<rparr>\<rparr>\<rparr>"

definition setStage :: "stage \<Rightarrow> world \<Rightarrow> world" where
  "setStage s w = w\<lparr>ui := (ui w)\<lparr>stage := s\<rparr>\<rparr>"

definition setToken :: "jsval \<Rightarrow> world \<Rightarrow> world" where
  "setToken t w = w\<lparr>ui := (ui w)\<lparr>token := t\<rparr>\<rparr>"

definition decode :: "runtime \<Rightarrow> string \<Rightarrow> jsval" where
  "decode rt t = (case JSON_parse rt t of Some j \<Rightarrow> j | None \<Rightarrow> VStr t)"

section \<open>HlaPrintCard\<close>

text \<open>
  The component of \<open>src/unnamed/part_000\<close>: the card whose \<open>hsFetch\<close> throws the
  status and the body, or the message of a decoded body, and whose callers show the
  message of what they catch. Its functions carry the prefix \<open>Card\<close>.
\<close>

definition Card_BASE :: string where
  "Card_BASE = ''https://YOUR-HLAPRINT-DOMAIN''"

definition Card_error_message :: "runtime \<Rightarrow> response \<Rightarrow> jsval \<Rightarrow> string" where
  "Card_error_message rt res json =
     (case json of
        VStr s \<Rightarrow> string_of_nat (res_status res) @ '' '' @ s
      | _ \<Rightarrow>
          (case get_prop json ''message'' of
             Some m \<Rightarrow> if truthy m then ToString rt m else JSON_stringify rt json
           | None \<Rightarrow> JSON_stringify rt json))"

text \<open>The message of the error that \<open>hsFetch\<close> throws for a response, from its raw body.\<close>

definition Card_thrown :: "runtime \<Rightarrow> response \<Rightarrow> string" where
  "Card_thrown rt res = Card_error_message rt res (decode rt (res_text res))"

definition Card_hsFetch ::
  "runtime \<Rightarrow> (request \<Rightarrow> fetch_outcome) \<Rightarrow> string \<Rightarrow> init \<Rightarrow> world \<Rightarrow> (js_error + jsval) \<times> world" where
  "Card_hsFetch rt fetch path i w =
     (let req = make_request (Card_BASE @ path) i;
          w1 = w\<lparr>sent := sent w @ [req]\<rparr>
      in case fetch req of
           Rejected e \<Rightarrow> (Inl e, w1)
         | Resolved res \<Rightarrow>
             (let json = decode rt (res_text res) in
              if \<not> ok res then (Inl (JsError (Card_error_message rt res json)), w1)
              else (Inr json, w1)))"

definition login_init :: "runtime \<Rightarrow> card \<Rightarrow> init" where
  "login_init rt c =
     \<lparr> init_method = Some ''POST'', init_headers = [],
       init_body =
         Some (JSON_stringify rt (VObj [(''email'', VStr (email c)), (''password'', VStr (password c))])) \<rparr>"

text \<open>
  The \<open>try\<close> block of \<open>doLogin\<close> up to \<open>setToken\<close>: the call of \<open>hsFetch\<close> and the
  test of the token, each of which can throw. \<open>take_token\<close> has the same text in both
  cards.
\<close>

definition take_token :: "jsval \<Rightarrow> js_error + jsval" where
  "take_token out =
     (case get_prop out ''token'' of
        None \<Rightarrow> Inl (JsError ''Token missing in response'')
      | Some t \<Rightarrow> if \<not> truthy t then Inl (JsError ''Token missing in response'') else Inr t)"

definition Card_login_try ::
  "runtime \<Rightarrow> (request \<Rightarrow> fetch_outcome) \<Rightarrow> world \<Rightarrow> (js_error + jsval) \<times> world" where
  "Card_login_try rt fetch w =
     (case Card_hsFetch rt fetch ''/api/login'' (login_init rt (ui w)) w of
        (Inl e, w1) \<Rightarrow> (Inl e, w1)
      | (Inr out, w1) \<Rightarrow> (take_token out, w1))"

definition or_default :: "string \<Rightarrow> string \<Rightarrow> string" where
  "or_default m d = (if m \<noteq> [] then m else d)"

definition Card_doLogin :: "runtime \<Rightarrow> (request \<Rightarrow> fetch_outcome) \<Rightarrow> world \<Rightarrow> world" where
  "Card_doLogin rt fetch w =
     (case Card_login_try rt fetch w of
        (Inr t, w1) \<Rightarrow> setStage Ready (setToast Success ''Logged in to HlaPrint.'' (setToken t w1))
      | (Inl (JsError m), w1) \<Rightarrow> setToast Error (or_default m ''Login failed'') w1)"

definition print_init :: "runtime \<Rightarrow> card \<Rightarrow> init" where
  "print_init rt c =
     \<lparr> init_method = Some ''POST'',
       init_headers = [(''Authorization'', ''Bearer '' @ ToString rt (token c))],
       init_body = Some (JSON_stringify rt (request_body rt c)) \<rparr>"

text \<open>\<open>v ?? "-"\<close> inside a template literal.\<close>

definition or_dash :: "runtime \<Rightarrow> jsval option \<Rightarrow> string" where
  "or_dash rt v = (case v of None \<Rightarrow> ''-'' | Some VNull \<Rightarrow> ''-'' | Some x \<Rightarrow> ToString rt x)"

definition created_message :: "runtime \<Rightarrow> jsval \<Rightarrow> string" where
  "created_message rt out =
     ''Created. Txn '' @ or_dash rt (get_prop out ''transaction_id'')
       @ '', code '' @ or_dash rt (get_prop out ''code'')"

definition Card_sendPrint :: "runtime \<Rightarrow> (request \<Rightarrow> fetch_outcome) \<Rightarrow> world \<Rightarrow> world" where
  "Card_sendPrint rt fetch w =
     (case validateBeforeSend rt (ui w) of
        Some err \<Rightarrow> setToast Error err w
      | None \<Rightarrow>
          (let w1 = setStage Sending w in
           setStage Ready
             (case Card_hsFetch rt fetch ''/api/createPrintjob'' (print_init rt (ui w)) w1 of
                (Inr out, w2) \<Rightarrow> setToast Success (created_message rt out) w2
              | (Inl (JsError m), w2) \<Rightarrow> setToast Error (or_default m ''Failed to create job'') w2)))"

section \<open>HlaPrintCardView\<close>

text \<open>
  The component of \<open>src/unnamed/part_001\<close>: the card whose \<open>hsFetch\<close> reads the
  header \<open>x-hubspot-external-error\<close>, shows the detail itself before it throws, and
  whose callers catch without showing anything. Its functions carry the prefix
  \<open>View\<close>. The write of \<open>console.error\<close> is left out.
\<close>

definition View_BASE :: string where
  "View_BASE = ''https://hlaprint.com''"

definition xErr :: "response \<Rightarrow> string" where
  "xErr res =
     (case map_of (res_headers res) ''x-hubspot-external-error'' of
        None \<Rightarrow> []
      | Some v \<Rightarrow> v)"

definition newline :: string where
  "newline = [char_of (10::nat)]"

definition detail :: "string \<Rightarrow> response \<Rightarrow> string" where
  "detail u res =
     ''URL: '' @ u @ newline
     @ ''Status: '' @ string_of_nat (res_status res) @ newline
     @ ''Proxy-Error: '' @ xErr res @ newline
     @ ''Body: '' @ take 400 (or_default (res_text res) ''<empty>'')"

definition View_hsFetch ::
  "runtime \<Rightarrow> (request \<Rightarrow> fetch_outcome) \<Rightarrow> string \<Rightarrow> init \<Rightarrow> world \<Rightarrow> (js_error + jsval) \<times> world" where
  "View_hsFetch rt fetch path i w =
     (let u = View_BASE @ path;
          req = make_request u i;
          w1 = w\<lparr>sent := sent w @ [req]\<rparr>
      in case fetch req of
           Rejected e \<Rightarrow> (Inl e, w1)
         | Resolved res \<Rightarrow>
             if \<not> ok res
             then (Inl (JsError (detail u res)), setToast Error (detail u res) w1)
             else (Inr (decode rt (res_text res)), w1))"

definition View_login_try ::
  "runtime \<Rightarrow> (request \<Rightarrow> fetch_outcome) \<Rightarrow> world \<Rightarrow> (js_error + jsval) \<times> world" where
  "View_login_try rt fetch w =
     (case View_hsFetch rt fetch ''/api/login'' (login_init rt (ui w)) w of
        (Inl e, w1) \<Rightarrow> (Inl e, w1)
      | (Inr out, w1) \<Rightarrow> (take_token out, w1))"

definition View_doLogin :: "runtime \<Rightarrow> (request \<Rightarrow> fetch_outcome) \<Rightarrow> world \<Rightarrow> world" where
  "View_doLogin rt fetch w =
     (case View_login_try rt fetch w of
        (Inr t, w1) \<Rightarrow> setStage Ready (setToast Success ''Logged in to HlaPrint.'' (setToken t w1))
      | (Inl e, w1) \<Rightarrow> w1)"

definition View_sendPrint :: "runtime \<Rightarrow> (request \<Rightarrow> fetch_outcome) \<Rightarrow> world \<Rightarrow> world" where
  "View_sendPrint rt fetch w =
     (case validateBeforeSend rt (ui w) of
        Some err \<Rightarrow> setToast Error err w
      | None \<Rightarrow>
          (let w1 = setStage Sending w in
           setStage Ready
             (case View_hsFetch rt fetch ''/api/createPrintjob'' (print_init rt (ui w)) w1 of
                (Inr out, w2) \<Rightarrow> setToast Success (created_message rt out) w2
              | (Inl e, w2) \<Rightarrow> w2)))"

section \<open>The rules as the specification words them\<close>

text \<open>
  The seven rules of the specification, each a check of its own that gives \<open>None\<close> when
  it passes and its message when it fails, and the first failure of a list of checks.
  These follow the specification, not the source: a page number is a finite number
  without fractional part that is at least 1, the end is not before the start when both
  are finite and the start is at most the end, and the copies are in bounds when they
  are a finite number from 1 to 100. The copies rule comes twice: \<open>rule_copies_stated\<close>
  fails for whatever is not in bounds; \<open>rule_copies\<close> fails for a number that is not in
  bounds and lets NaN, which is no number, pass.
\<close>

definition page_number :: "jsnum \<Rightarrow> bool" where
  "page_number n = (case n of Fin q \<Rightarrow> of_int \<lfloor>q\<rfloor> = q \<and> 1 \<le> q | _ \<Rightarrow> False)"

definition not_before :: "jsnum \<Rightarrow> jsnum \<Rightarrow> bool" where
  "not_before e s = (case (e, s) of (Fin b, Fin a) \<Rightarrow> a \<le> b | _ \<Rightarrow> False)"

definition in_bounds :: "jsnum \<Rightarrow> bool" where
  "in_bounds n = (case n of Fin q \<Rightarrow> 1 \<le> q \<and> q \<le> 100 | _ \<Rightarrow> False)"

definition rule_auth :: "card \<Rightarrow> string option" where
  "rule_auth c = (if truthy (token c) then None else Some msg_login)"

definition rule_device_required :: "card \<Rightarrow> string option" where
  "rule_device_required c = (if deviceName c \<noteq> [] then None else Some msg_device_required)"

definition rule_device_length :: "card \<Rightarrow> string option" where
  "rule_device_length c = (if length (deviceName c) \<le> 23 then None else Some msg_device_length)"

definition rule_file_required :: "card \<Rightarrow> string option" where
  "rule_file_required c = (if fileUrl c \<noteq> [] then None else Some msg_file_required)"

definition rule_range_complete :: "card \<Rightarrow> string option" where
  "rule_range_complete c = (if hasStart c = hasEnd c then None else Some msg_range_incomplete)"

definition rule_range_numeric :: "runtime \<Rightarrow> card \<Rightarrow> string option" where
  "rule_range_numeric rt c =
     (if hasStart c \<and> hasEnd c
      then if page_number (js_Number rt (rangeStart c))
           then if page_number (js_Number rt (rangeEnd c))
                then if not_before (js_Number rt (rangeEnd c)) (js_Number rt (rangeStart c))
                     then None
                     else Some msg_end_before_start
                else Some msg_end_integer
           else Some msg_start_integer
      else None)"

definition rule_copies_stated :: "card \<Rightarrow> string option" where
  "rule_copies_stated c = (if in_bounds (copies c) then None else Some msg_copies)"

definition rule_copies :: "card \<Rightarrow> string option" where
  "rule_copies c = (if copies c = NaN \<or> in_bounds (copies c) then None else Some msg_copies)"

definition earlier_rules :: "(card \<Rightarrow> string option) list" where
  "earlier_rules = [rule_auth, rule_device_required, rule_device_length, rule_file_required]"

definition rules_before_copies :: "runtime \<Rightarrow> (card \<Rightarrow> string option) list" where
  "rules_before_copies rt =
     [rule_auth, rule_device_required, rule_device_length, rule_file_required,
      rule_range_complete, rule_range_numeric rt]"

definition stated_rules :: "runtime \<Rightarrow> (card \<Rightarrow> string option) list" where
  "stated_rules rt =
     [rule_auth, rule_device_required, rule_device_length, rule_file_required,
      rule_range_complete, rule_range_numeric rt, rule_copies_stated]"

definition spec_rules :: "runtime \<Rightarrow> (card \<Rightarrow> string option) list" where
  "spec_rules rt =
     [rule_auth, rule_device_required, rule_device_length, rule_file_required,
      rule_range_complete, rule_range_numeric rt, rule_copies]"

fun first_failure :: "(card \<Rightarrow> string option) list \<Rightarrow> card \<Rightarrow> string option" where
  "first_failure [] c = None"
| "first_failure (r # rs) c = (case r c of Some e \<Rightarrow> Some e | None \<Rightarrow> first_failure rs c)"

text \<open>What \<open>validateBeforeSend\<close> reads of the state.\<close>

definition validated_inputs :: "card \<Rightarrow> jsval \<times> string \<times> string \<times> string \<times> string \<times> jsnum" where
  "validated_inputs c = (token c, deviceName c, fileUrl c, rangeStart c, rangeEnd c, copies c)"

text \<open>The messages of the two range rules, and the range that both of them accept.\<close>

definition range_errors :: "string list" where
  "range_errors = [msg_range_incomplete, msg_start_integer, msg_end_integer, msg_end_before_start]"

definition range_ok :: "runtime \<Rightarrow> card \<Rightarrow> bool" where
  "range_ok rt c =
     (page_number (js_Number rt (rangeStart c)) \<and> page_number (js_Number rt (rangeEnd c))
      \<and> not_before (js_Number rt (rangeEnd c)) (js_Number rt (rangeStart c)))"

section \<open>Reading a request body\<close>

text \<open>The draft is what the user edits on the form, and the keys of an object in their order.\<close>

definition draft_of ::
  "card \<Rightarrow> string \<times> string \<times> jsnum \<times> bool \<times> bool \<times> page_size \<times> orientation \<times> string \<times> string" where
  "draft_of c =
     (deviceName c, fileUrl c, copies c, color c, duplex c, pageSize c, orientation c,
      rangeStart c, rangeEnd c)"

definition keys :: "jsval \<Rightarrow> string list" where
  "keys v = (case v of VObj kvs \<Rightarrow> map fst kvs | _ \<Rightarrow> [])"

section \<open>The requests of the two cards\<close>

definition Card_login_request :: "runtime \<Rightarrow> card \<Rightarrow> request" where
  "Card_login_request rt c = make_request (Card_BASE @ ''/api/login'') (login_init rt c)"

definition View_login_request :: "runtime \<Rightarrow> card \<Rightarrow> request" where
  "View_login_request rt c = make_request (View_BASE @ ''/api/login'') (login_init rt c)"

definition Card_print_request :: "runtime \<Rightarrow> card \<Rightarrow> request" where
  "Card_print_request rt c = make_request (Card_BASE @ ''/api/createPrintjob'') (print_init rt c)"

definition View_print_request :: "runtime \<Rightarrow> card \<Rightarrow> request" where
  "View_print_request rt c = make_request (View_BASE @ ''/api/createPrintjob'') (print_init rt c)"

text \<open>
  The token of a decoded response, and a login that succeeds with the token \<open>t\<close>: the
  request resolved, the status is in 200..299 and the decoded body has a truthy token.
  Every other outcome is a failed login: a rejected request, another status, a body
  without a token, a token that is not truthy.
\<close>

definition token_of :: "runtime \<Rightarrow> response \<Rightarrow> jsval option" where
  "token_of rt res = get_prop (decode rt (res_text res)) ''token''"

definition login_succeeds :: "runtime \<Rightarrow> fetch_outcome \<Rightarrow> jsval \<Rightarrow> bool" where
  "login_succeeds rt out t =
     (case out of
        Rejected e \<Rightarrow> False
      | Resolved res \<Rightarrow> ok res \<and> token_of rt res = Some t \<and> truthy t)"

section \<open>Sample inputs\<close>

text \<open>
  A runtime for the examples. \<open>Number_digits\<close> is \<open>Number\<close> on the blank strings
  (which give 0) and on the strings of decimal digits around which \<open>trim\<close> finds only
  white space, as long as their value is below \<open>2 ^ 53\<close>; \<open>sample_parse\<close>,
  \<open>sample_stringify\<close> and \<open>sample_ToString\<close> are \<open>JSON.parse\<close>,
  \<open>JSON.stringify\<close> and the conversion to a string on the arguments listed in them.
  The examples pass them no other argument whose result they read.
\<close>

definition is_digit :: "char \<Rightarrow> bool" where
  "is_digit ch = (48 \<le> (of_char ch :: nat) \<and> (of_char ch :: nat) \<le> 57)"

definition Number_digits :: "string \<Rightarrow> jsnum" where
  "Number_digits s =
     (let t = trim s in
      if t = [] then Fin 0
      else if list_all is_digit t
      then Fin (of_nat (foldl (\<lambda>a ch. 10 * a + (of_char ch - 48)) 0 t))
      else NaN)"

definition sample_parse :: "string \<Rightarrow> jsval option" where
  \<open>sample_parse s =
     (if s = ''{"token":"T1","status":"ok"}''
      then Some (VObj [(''token'', VStr ''T1''), (''status'', VStr ''ok'')])
      else if s = ''{"status":"ok"}'' then Some (VObj [(''status'', VStr ''ok'')])
      else if s = ''"oops"'' then Some (VStr ''oops'')
      else if s = ''{"message":"ok","transaction_id":"tx9","code":"0"}''
      then Some (VObj [(''message'', VStr ''ok''), (''transaction_id'', VStr ''tx9''), (''code'', VStr ''0'')])
      else None)\<close>

definition sample_stringify :: "jsval \<Rightarrow> string" where
  \<open>sample_stringify v =
     (if v = VObj [(''email'', VStr ''a@b.com''), (''password'', VStr ''x'')]
      then ''{"email":"a@b.com","password":"x"}''
      else if v =
        VObj [(''device_name'', VStr ''Desk1''),
              (''print_files'',
               VArr [VObj [(''filename'', VStr ''https://x/y.pdf''), (''color'', VBool True),
                           (''double_sided'', VBool False), (''page_size'', VStr ''A3''),
                           (''copies'', VNum (Fin 2)), (''page_orientation'', VStr ''portrait''),
                           (''pages_start'', VNum (Fin 1)), (''page_end'', VNum (Fin 3))]])]
      then ''{"device_name":"Desk1","print_files":[{"filename":"https://x/y.pdf","color":true,'' @
           ''"double_sided":false,"page_size":"A3","copies":2,"page_orientation":"portrait",'' @
           ''"pages_start":1,"page_end":3}]}''
      else ''null'')\<close>

definition sample_ToString :: "jsval \<Rightarrow> string" where
  "sample_ToString v = (case v of VStr s \<Rightarrow> s | _ \<Rightarrow> [])"

definition sample_rt :: runtime where
  "sample_rt =
     \<lparr> js_Number = Number_digits, JSON_parse = sample_parse,
       JSON_stringify = sample_stringify, ToString = sample_ToString \<rparr>"

text \<open>
  The draft of the end-to-end scenario, after a login that returned the token T1, and
  drafts that differ from it in one or two fields.
\<close>

definition desk_card :: card where
  "desk_card =
     \<lparr> stage = Ready, toast = None, email = ''a@b.com'', password = ''x'', token = VStr ''T1'',
       deviceName = ''Desk1'', fileUrl = ''https://x/y.pdf'', copies = Fin 2, color = True,
       duplex = False, pageSize = A3, orientation = Portrait, rangeStart = ''1'',
       rangeEnd = ''3'' \<rparr>"

definition long_name :: string where
  "long_name = ''ABCDEFGHIJKLMNOPQRSTUVWX''"

definition long_name_card :: card where
  "long_name_card = desk_card\<lparr>deviceName := long_name\<rparr>"

definition anonymous_long_name_card :: card where
  "anonymous_long_name_card = desk_card\<lparr>token := VStr [], deviceName := long_name\<rparr>"

definition anonymous_card :: card where
  "anonymous_card =
     desk_card\<lparr>token := VStr [], deviceName := long_name, rangeEnd := [], copies := Fin 0\<rparr>"

definition full_name_card :: card where
  "full_name_card = desk_card\<lparr>deviceName := ''ABCDEFGHIJKLMNOPQRSTUVW''\<rparr>"

definition two_faults_card :: card where
  "two_faults_card = desk_card\<lparr>deviceName := [], copies := Fin 0\<rparr>"

definition no_file_no_copies_card :: card where
  "no_file_no_copies_card = desk_card\<lparr>fileUrl := [], copies := Fin 0\<rparr>"

definition many_copies_card :: card where
  "many_copies_card = desk_card\<lparr>copies := Fin 101\<rparr>"

definition open_range_card :: card where
  "open_range_card = desk_card\<lparr>rangeEnd := []\<rparr>"

definition no_file_open_range_card :: card where
  "no_file_open_range_card = desk_card\<lparr>fileUrl := [], rangeEnd := []\<rparr>"

definition backwards_card :: card where
  "backwards_card = desk_card\<lparr>rangeStart := ''3'', rangeEnd := ''1''\<rparr>"

definition no_range_card :: card where
  "no_range_card = desk_card\<lparr>rangeStart := [], rangeEnd := []\<rparr>"

definition blank_range_card :: card where
  "blank_range_card = desk_card\<lparr>rangeStart := '' '', rangeEnd := '' ''\<rparr>"

definition nan_copies_card :: card where
  "nan_copies_card = desk_card\<lparr>copies := NaN\<rparr>"

text \<open>Servers that give every request the same outcome, and two worlds to start from.\<close>

definition always :: "fetch_outcome \<Rightarrow> request \<Rightarrow> fetch_outcome" where
  "always r req = r"

definition timeout_500 :: response where
  "timeout_500 =
     \<lparr> res_status = 500,
       res_headers = [(''x-hubspot-external-error'', ''upstream timeout'')],
       res_text = ''Internal error'' \<rparr>"

definition oops_500 :: response where
  \<open>oops_500 =
     \<lparr> res_status = 500,
       res_headers = [(''x-hubspot-external-error'', ''upstream timeout'')],
       res_text = ''"oops"'' \<rparr>\<close>

definition no_token_200 :: response where
  \<open>no_token_200 = \<lparr> res_status = 200, res_headers = [], res_text = ''{"status":"ok"}'' \<rparr>\<close>

definition token_200 :: response where
  \<open>token_200 =
     \<lparr> res_status = 200, res_headers = [], res_text = ''{"token":"T1","status":"ok"}'' \<rparr>\<close>

definition network_down :: fetch_outcome where
  "network_down = Rejected (JsError ''Network error'')"

definition fresh_world :: world where
  "fresh_world = \<lparr> ui = initial_card\<lparr>email := ''a@b.com'', password := ''x''\<rparr>, sent = [] \<rparr>"

definition desk_world :: world where
  "desk_world = \<lparr> ui = desk_card, sent = [] \<rparr>"

section \<open>Helper facts\<close>

lemmas msg_defs = msg_login_def msg_device_required_def msg_device_length_def msg_file_required_def
  msg_range_incomplete_def msg_start_integer_def msg_end_integer_def msg_end_before_start_def msg_copies_def
  le_sign_def ge_sign_def

lemmas sample_defs = sample_rt_def Number_digits_def trim_def is_space_def is_digit_def
  hasStart_def hasEnd_def

lemmas card_defs = desk_card_def long_name_def long_name_card_def anonymous_long_name_card_def
  anonymous_card_def full_name_card_def two_faults_card_def no_file_no_copies_card_def
  many_copies_card_def open_range_card_def no_file_open_range_card_def backwards_card_def
  no_range_card_def blank_range_card_def nan_copies_card_def

lemma page_number_iff: "page_number n = (isInteger n \<and> \<not> js_lt n (Fin 1))"
  by (cases n) (auto simp: page_number_def)

lemma not_before_iff:
  "page_number s \<Longrightarrow> page_number e \<Longrightarrow> not_before e s = (\<not> js_lt e s)"
  by (cases s; cases e) (auto simp: page_number_def not_before_def)

lemma range_block_eq:
  "hasStart c \<Longrightarrow> hasEnd c \<Longrightarrow> range_block rt c = rule_range_numeric rt c"
  by (auto simp: range_block_def rule_range_numeric_def Let_def page_number_iff not_before_iff)

lemma range_block_None: "(range_block rt c = None) = range_ok rt c"
  by (auto simp: range_block_def range_ok_def Let_def page_number_iff not_before_iff)

lemma range_block_errors: "range_block rt c = Some m \<Longrightarrow> m \<in> set range_errors"
  by (auto simp: range_block_def range_errors_def Let_def split: if_splits)

lemma copies_rule_eq:
  "rule_copies c = (if js_lt (copies c) (Fin 1) \<or> js_lt (Fin 100) (copies c) then Some msg_copies else None)"
  by (cases "copies c") (auto simp: rule_copies_def in_bounds_def)

lemma validate_refines:
  "validateBeforeSend rt c = first_failure (spec_rules rt) c"
proof (cases "hasStart c \<and> hasEnd c")
  case True
  then show ?thesis
    by (simp add: validateBeforeSend_def spec_rules_def rule_auth_def rule_device_required_def
        rule_device_length_def rule_file_required_def rule_range_complete_def
        range_block_eq copies_rule_eq split: option.splits)
next
  case False
  then show ?thesis
    by (auto simp add: validateBeforeSend_def spec_rules_def rule_auth_def rule_device_required_def
        rule_device_length_def rule_file_required_def rule_range_complete_def
        rule_range_numeric_def copies_rule_eq split: option.splits)
qed

lemma first_failure_None:
  "(first_failure rs c = None) = list_all (\<lambda>r. r c = None) rs"
  by (induction rs) (auto split: option.splits)

lemma first_failure_append:
  "first_failure (xs @ ys) c =
     (case first_failure xs c of Some e \<Rightarrow> Some e | None \<Rightarrow> first_failure ys c)"
  by (induction xs) (auto split: option.splits)

lemma validate_before_copies:
  "validateBeforeSend rt c =
     (case first_failure (rules_before_copies rt) c of
        Some e \<Rightarrow> Some e
      | None \<Rightarrow> rule_copies c)"
proof -
  have "spec_rules rt = rules_before_copies rt @ [rule_copies]"
    by (simp add: spec_rules_def rules_before_copies_def)
  then show ?thesis
    by (simp add: validate_refines first_failure_append split: option.splits)
qed

lemma validate_earlier:
  "validateBeforeSend rt c =
     (case first_failure earlier_rules c of
        Some e \<Rightarrow> Some e
      | None \<Rightarrow> first_failure [rule_range_complete, rule_range_numeric rt, rule_copies] c)"
proof -
  have "spec_rules rt = earlier_rules @ [rule_range_complete, rule_range_numeric rt, rule_copies]"
    by (simp add: spec_rules_def earlier_rules_def)
  then show ?thesis
    by (simp only: validate_refines first_failure_append)
qed

lemma rule_copies_not_range: "rule_copies c \<notin> Some ` set range_errors"
  by (auto simp: rule_copies_def range_errors_def msg_defs)

lemma earlier_not_range:
  "first_failure earlier_rules c = Some e \<Longrightarrow> e \<notin> set range_errors"
  by (auto simp: earlier_rules_def rule_auth_def rule_device_required_def rule_device_length_def
      rule_file_required_def range_errors_def msg_defs split: if_splits)

lemma range_numeric_errors:
  "rule_range_numeric rt c = Some m \<Longrightarrow> m \<in> set range_errors"
  by (auto simp: rule_range_numeric_def range_errors_def split: if_splits)

lemma range_numeric_None:
  "hasStart c \<and> hasEnd c \<Longrightarrow> (rule_range_numeric rt c = None) = range_ok rt c"
  by (auto simp: rule_range_numeric_def range_ok_def)

lemma trim_Nil: "trim [] = []"
  by (simp add: trim_def)

lemma hasStart_nonempty: "hasStart c \<Longrightarrow> rangeStart c \<noteq> []"
  by (auto simp: hasStart_def trim_Nil)

lemma hasEnd_nonempty: "hasEnd c \<Longrightarrow> rangeEnd c \<noteq> []"
  by (auto simp: hasEnd_def trim_Nil)

lemma validate_None_range:
  "validateBeforeSend rt c = None \<Longrightarrow> hasStart c = hasEnd c \<and> (hasStart c \<longrightarrow> range_ok rt c)"
  by (auto simp: validateBeforeSend_def range_block_None [symmetric] split: if_splits option.splits)

lemma desk_card_valid: "validateBeforeSend sample_rt desk_card = None"
  by (simp add: validateBeforeSend_def range_block_def desk_card_def sample_defs)

lemma anonymous_card_login: "validateBeforeSend sample_rt anonymous_card = Some msg_login"
  by (simp add: validateBeforeSend_def card_defs)

lemma Card_sendPrint_sent:
  "validateBeforeSend rt (ui w) = None \<Longrightarrow>
   sent (Card_sendPrint rt fetch w) = sent w @ [Card_print_request rt (ui w)]"
  by (auto simp: Card_sendPrint_def Card_hsFetch_def Card_print_request_def setStage_def
      setToast_def Let_def split: fetch_outcome.splits js_error.splits)

lemma View_sendPrint_sent:
  "validateBeforeSend rt (ui w) = None \<Longrightarrow>
   sent (View_sendPrint rt fetch w) = sent w @ [View_print_request rt (ui w)]"
  by (auto simp: View_sendPrint_def View_hsFetch_def View_print_request_def setStage_def
      setToast_def Let_def split: fetch_outcome.splits js_error.splits)

lemma Card_sendPrint_Ready:
  "validateBeforeSend rt (ui w) = None \<Longrightarrow> stage (ui (Card_sendPrint rt fetch w)) = Ready"
  by (simp add: Card_sendPrint_def setStage_def Let_def)

lemma View_sendPrint_Ready:
  "validateBeforeSend rt (ui w) = None \<Longrightarrow> stage (ui (View_sendPrint rt fetch w)) = Ready"
  by (simp add: View_sendPrint_def setStage_def Let_def)

lemma sublist_mid: "sublist x (a @ x @ b)"
  by (auto simp: sublist_def)

lemma detail_status: "sublist (string_of_nat (res_status res)) (detail u res)"
proof -
  have "detail u res =
      (''URL: '' @ u @ newline @ ''Status: '') @ string_of_nat (res_status res)
      @ (newline @ ''Proxy-Error: '' @ xErr res @ newline
         @ ''Body: '' @ take 400 (or_default (res_text res) ''<empty>''))"
    by (simp add: detail_def)
  then show ?thesis
    by (simp only: sublist_mid)
qed

lemma detail_xErr: "sublist (xErr res) (detail u res)"
proof -
  have "detail u res =
      (''URL: '' @ u @ newline @ ''Status: '' @ string_of_nat (res_status res) @ newline
        @ ''Proxy-Error: '') @ xErr res
      @ (newline @ ''Body: '' @ take 400 (or_default (res_text res) ''<empty>''))"
    by (simp add: detail_def)
  then show ?thesis
    by (simp only: sublist_mid)
qed

lemma detail_body:
  "res_text res \<noteq> [] \<Longrightarrow> suffix (''Body: '' @ take 400 (res_text res)) (detail u res)"
  by (simp add: detail_def or_default_def suffix_def)

lemma string_of_nat_500: "string_of_nat 500 = ''500''"
  by code_simp

lemma take_token_cases:
  "take_token out =
     (case get_prop out ''token'' of
        None \<Rightarrow> Inl (JsError ''Token missing in response'')
      | Some t \<Rightarrow> if truthy t then Inr t else Inl (JsError ''Token missing in response''))"
  by (simp add: take_token_def split: option.splits)

lemma Card_login_try_fst:
  "fst (Card_login_try rt fetch w) =
     (case fetch (Card_login_request rt (ui w)) of
        Rejected e \<Rightarrow> Inl e
      | Resolved res \<Rightarrow>
          if \<not> ok res
          then Inl (JsError (Card_error_message rt res (decode rt (res_text res))))
          else take_token (decode rt (res_text res)))"
  by (simp add: Card_login_try_def Card_hsFetch_def Card_login_request_def Let_def
      split: fetch_outcome.splits)

lemma View_login_try_fst:
  "fst (View_login_try rt fetch w) =
     (case fetch (View_login_request rt (ui w)) of
        Rejected e \<Rightarrow> Inl e
      | Resolved res \<Rightarrow>
          if \<not> ok res
          then Inl (JsError (detail (View_BASE @ ''/api/login'') res))
          else take_token (decode rt (res_text res)))"
  by (simp add: View_login_try_def View_hsFetch_def View_login_request_def Let_def
      split: fetch_outcome.splits)

lemma Card_login_try_ui:
  "ui (snd (Card_login_try rt fetch w)) = ui w"
  by (simp add: Card_login_try_def Card_hsFetch_def Let_def
      split: fetch_outcome.splits sum.splits prod.splits)

lemma View_login_try_ui:
  "token (ui (snd (View_login_try rt fetch w))) = token (ui w)
   \<and> stage (ui (snd (View_login_try rt fetch w))) = stage (ui w)"
  by (simp add: View_login_try_def View_hsFetch_def Let_def setToast_def
      split: fetch_outcome.splits sum.splits prod.splits)

lemma Card_doLogin_cases:
  "Card_doLogin rt fetch w =
     (case fst (Card_login_try rt fetch w) of
        Inr t \<Rightarrow>
          setStage Ready (setToast Success ''Logged in to HlaPrint.''
            (setToken t (snd (Card_login_try rt fetch w))))
      | Inl e \<Rightarrow>
          (case e of JsError m \<Rightarrow>
            setToast Error (or_default m ''Login failed'') (snd (Card_login_try rt fetch w))))"
  by (simp add: Card_doLogin_def split: prod.splits sum.splits js_error.splits)

lemma View_doLogin_cases:
  "View_doLogin rt fetch w =
     (case fst (View_login_try rt fetch w) of
        Inr t \<Rightarrow>
          setStage Ready (setToast Success ''Logged in to HlaPrint.''
            (setToken t (snd (View_login_try rt fetch w))))
      | Inl e \<Rightarrow> snd (View_login_try rt fetch w))"
  by (simp add: View_doLogin_def split: prod.splits sum.splits)

lemma login_try_Inr_iff:
  "(fst (Card_login_try rt fetch w) = Inr t) = login_succeeds rt (fetch (Card_login_request rt (ui w))) t"
  "(fst (View_login_try rt fetch w) = Inr t) = login_succeeds rt (fetch (View_login_request rt (ui w))) t"
  by (auto simp: Card_login_try_fst View_login_try_fst login_succeeds_def token_of_def
      take_token_cases split: fetch_outcome.splits option.splits if_splits)

lemma sample_token_of:
  "token_of sample_rt token_200 = Some (VStr ''T1'')"
  "token_of sample_rt no_token_200 = None"
  by (simp_all add: token_of_def decode_def sample_rt_def sample_parse_def token_200_def
      no_token_200_def)

lemma sample_ok: "ok token_200" "ok no_token_200" "\<not> ok timeout_500"
  by (simp_all add: ok_def token_200_def no_token_200_def timeout_500_def)

section \<open>The request body (C1)\<close>

text \<open>
  What holds of the body that \<open>sendPrint\<close> builds, for every draft: it is the object with
  \<open>device_name\<close> and with \<open>print_files\<close> holding the one print file; the print file maps
  fileUrl, color, duplex, pageSize, copies and orientation to filename, color,
  double_sided, page_size, copies and page_orientation; and it is a function of the draft
  alone, whatever the token, the stage, the toast or the credentials.
\<close>

lemma payload_shape:
  "request_body rt c =
     VObj [(''device_name'', VStr (deviceName c)), (''print_files'', VArr [printFile rt c])]
   \<and> take 6 (keys (printFile rt c)) =
       [''filename'', ''color'', ''double_sided'', ''page_size'', ''copies'', ''page_orientation'']
   \<and> get_prop (printFile rt c) ''filename'' = Some (VStr (fileUrl c))
   \<and> get_prop (printFile rt c) ''color'' = Some (VBool (color c))
   \<and> get_prop (printFile rt c) ''double_sided'' = Some (VBool (duplex c))
   \<and> get_prop (printFile rt c) ''page_size'' = Some (VStr (page_size_str (pageSize c)))
   \<and> get_prop (printFile rt c) ''copies'' = Some (VNum (copies c))
   \<and> get_prop (printFile rt c) ''page_orientation'' = Some (VStr (orientation_str (orientation c)))
   \<and> (\<forall>c'. draft_of c' = draft_of c \<longrightarrow> request_body rt c' = request_body rt c)"
  by (simp add: request_body_def printFile_def keys_def draft_of_def)

text \<open>
  A valid draft whose range the validator saw as set is sent with both range keys, which
  hold page numbers in order; a draft with an empty range field is sent without them.
\<close>

lemma set_range_is_sent:
  assumes "validateBeforeSend rt c = None" and "hasStart c \<or> hasEnd c"
  shows "get_prop (printFile rt c) ''pages_start'' = Some (VNum (js_Number rt (rangeStart c)))
    \<and> get_prop (printFile rt c) ''page_end'' = Some (VNum (js_Number rt (rangeEnd c)))
    \<and> range_ok rt c"
  using validate_None_range [OF assms(1)] assms(2) hasStart_nonempty [of c] hasEnd_nonempty [of c]
  by (auto simp: printFile_def)

lemma empty_range_is_not_sent:
  assumes "rangeStart c = [] \<or> rangeEnd c = []"
  shows "get_prop (printFile rt c) ''pages_start'' = None
    \<and> get_prop (printFile rt c) ''page_end'' = None"
  using assms by (auto simp: printFile_def)

text \<open>Both cards send this body, serialised, as the body of their one request.\<close>

lemma sendPrint_sends_body:
  assumes "validateBeforeSend rt (ui w) = None"
  shows "req_body (last (sent (Card_sendPrint rt fetch w)))
      = Some (JSON_stringify rt (request_body rt (ui w)))
    \<and> req_body (last (sent (View_sendPrint rt fetch w)))
      = Some (JSON_stringify rt (request_body rt (ui w)))"
  using assms
  by (simp add: Card_sendPrint_sent View_sendPrint_sent Card_print_request_def
      View_print_request_def make_request_def print_init_def)

lemma desk_payload:
  "request_body sample_rt desk_card =
       VObj [(''device_name'', VStr ''Desk1''),
             (''print_files'',
              VArr [VObj [(''filename'', VStr ''https://x/y.pdf''), (''color'', VBool True),
                          (''double_sided'', VBool False), (''page_size'', VStr ''A3''),
                          (''copies'', VNum (Fin 2)), (''page_orientation'', VStr ''portrait''),
                          (''pages_start'', VNum (Fin 1)), (''page_end'', VNum (Fin 3))]])]"
  by (simp add: request_body_def printFile_def desk_card_def sample_defs)

text \<open>
  The request of the end-to-end scenario, as \<open>HlaPrintCardView\<close> sends it.
\<close>

lemma desk_request:
  \<open>View_print_request sample_rt desk_card =
     \<lparr> req_url = ''https://hlaprint.com/api/createPrintjob'',
       req_method = ''POST'',
       req_headers = [(''Content-Type'', ''application/json''), (''Authorization'', ''Bearer T1'')],
       req_body = Some
         (''{"device_name":"Desk1","print_files":[{"filename":"https://x/y.pdf","color":true,'' @
          ''"double_sided":false,"page_size":"A3","copies":2,"page_orientation":"portrait",'' @
          ''"pages_start":1,"page_end":3}]}'') \<rparr>\<close>
proof -
  have b: "request_body sample_rt desk_card =
       VObj [(''device_name'', VStr ''Desk1''),
             (''print_files'',
              VArr [VObj [(''filename'', VStr ''https://x/y.pdf''), (''color'', VBool True),
                          (''double_sided'', VBool False), (''page_size'', VStr ''A3''),
                          (''copies'', VNum (Fin 2)), (''page_orientation'', VStr ''portrait''),
                          (''pages_start'', VNum (Fin 1)), (''page_end'', VNum (Fin 3))]])]"
    by (simp add: request_body_def printFile_def desk_card_def sample_defs)
  have s: "JSON_stringify sample_rt = sample_stringify" "ToString sample_rt = sample_ToString"
    by (simp_all add: sample_rt_def)
  have t: "token desk_card = VStr ''T1''"
    by (simp add: desk_card_def)
  show ?thesis
    by (simp add: View_print_request_def make_request_def print_init_def spread_def View_BASE_def
        b s t sample_stringify_def sample_ToString_def)
qed

text \<open>
  C1 says that, for a draft that passes validation, pages_start and page_end are in the
  body if and only if both rangeStart and rangeEnd are set. The validator takes a field
  for set when it has a character that \<open>trim\<close> keeps, and \<open>sendPrint\<close>, whose comment
  says that the range is included only if both are set, tests the two strings for being
  non-empty. A draft whose two range fields hold one space each passes validation with
  the range unset, so that no range rule is applied, and is sent with both keys:
  \<open>Number\<close> of a blank string is 0, and the body asks for the pages 0 to 0, which is no
  page number and which the validator's own range rule refuses.
\<close>

theorem blank_range_is_sent:
  "validateBeforeSend sample_rt blank_range_card = None
   \<and> \<not> hasStart blank_range_card \<and> \<not> hasEnd blank_range_card
   \<and> keys (printFile sample_rt blank_range_card) =
       [''filename'', ''color'', ''double_sided'', ''page_size'', ''copies'', ''page_orientation'',
        ''pages_start'', ''page_end'']
   \<and> get_prop (printFile sample_rt blank_range_card) ''pages_start'' = Some (VNum (Fin 0))
   \<and> get_prop (printFile sample_rt blank_range_card) ''page_end'' = Some (VNum (Fin 0))
   \<and> \<not> page_number (Fin 0)
   \<and> rule_range_numeric sample_rt (blank_range_card\<lparr>rangeStart := ''0'', rangeEnd := ''0''\<rparr>)
       = Some msg_start_integer"
  by (simp add: validateBeforeSend_def printFile_def keys_def page_number_def
      rule_range_numeric_def blank_range_card_def desk_card_def sample_defs)

section \<open>The request wrapper (C2)\<close>

text \<open>
  C2, as amended. In \<open>HlaPrintCardView\<close>, for every response whose status is not in
  200..299, \<open>hsFetch\<close> throws an error whose message is the detail string: it holds the
  decimal status, the value of the header \<open>x-hubspot-external-error\<close> when the response
  has one, and it ends with the first 400 characters of the raw body, unchanged (with the
  word \<open><empty>\<close> in their place when the body is empty). The response 500 with the body
  \<open>Internal error\<close> and the header \<open>upstream timeout\<close> gives a message with the
  lines Status: 500, Proxy-Error: upstream timeout and Body: Internal error. In
  \<open>HlaPrintCard\<close>, \<open>hsFetch\<close> throws for every such response too, with a message that
  does not depend on the headers of the response: the status, a space and the whole raw
  body when the body is no JSON; the status, a space and the decoded string when the body
  decodes to a string; and when it decodes to another value, the \<open>message\<close> of that
  value converted to a string if it has a truthy one, and the value serialised again if
  it has not.
\<close>

theorem hsFetch_error:
  "(fetch (make_request (View_BASE @ path) i) = Resolved res \<and> \<not> ok res \<longrightarrow>
      fst (View_hsFetch rt fetch path i w) = Inl (JsError (detail (View_BASE @ path) res))
      \<and> sublist (string_of_nat (res_status res)) (detail (View_BASE @ path) res)
      \<and> (\<forall>v. map_of (res_headers res) ''x-hubspot-external-error'' = Some v \<longrightarrow>
            sublist v (detail (View_BASE @ path) res))
      \<and> (res_text res \<noteq> [] \<longrightarrow>
            suffix (''Body: '' @ take 400 (res_text res)) (detail (View_BASE @ path) res))
      \<and> (res_text res = [] \<longrightarrow> suffix ''Body: <empty>'' (detail (View_BASE @ path) res)))
   \<and> (fetch (make_request (Card_BASE @ path) i) = Resolved res \<and> \<not> ok res \<longrightarrow>
      fst (Card_hsFetch rt fetch path i w) = Inl (JsError (Card_thrown rt res))
      \<and> (\<forall>h. Card_thrown rt (res\<lparr>res_headers := h\<rparr>) = Card_thrown rt res)
      \<and> (JSON_parse rt (res_text res) = None \<longrightarrow>
            Card_thrown rt res = string_of_nat (res_status res) @ '' '' @ res_text res)
      \<and> (\<forall>s. JSON_parse rt (res_text res) = Some (VStr s) \<longrightarrow>
            Card_thrown rt res = string_of_nat (res_status res) @ '' '' @ s)
      \<and> (\<forall>j m. JSON_parse rt (res_text res) = Some j \<and> (\<forall>s. j \<noteq> VStr s)
              \<and> get_prop j ''message'' = Some m \<and> truthy m \<longrightarrow>
            Card_thrown rt res = ToString rt m)
      \<and> (\<forall>j. JSON_parse rt (res_text res) = Some j \<and> (\<forall>s. j \<noteq> VStr s)
              \<and> (\<forall>m. get_prop j ''message'' = Some m \<longrightarrow> \<not> truthy m) \<longrightarrow>
            Card_thrown rt res = JSON_stringify rt j))"
proof (intro conjI allI impI)
  assume a: "fetch (make_request (View_BASE @ path) i) = Resolved res \<and> \<not> ok res"
  then show "fst (View_hsFetch rt fetch path i w) = Inl (JsError (detail (View_BASE @ path) res))"
    by (simp add: View_hsFetch_def Let_def)
  show "sublist (string_of_nat (res_status res)) (detail (View_BASE @ path) res)"
    by (rule detail_status)
  show "sublist v (detail (View_BASE @ path) res)"
    if "map_of (res_headers res) ''x-hubspot-external-error'' = Some v" for v
    using that detail_xErr [of res "View_BASE @ path"] by (simp add: xErr_def)
  show "suffix (''Body: '' @ take 400 (res_text res)) (detail (View_BASE @ path) res)"
    if "res_text res \<noteq> []"
    using that by (rule detail_body)
  show "suffix ''Body: <empty>'' (detail (View_BASE @ path) res)" if "res_text res = []"
    using that by (simp add: detail_def or_default_def suffix_def)
next
  assume a: "fetch (make_request (Card_BASE @ path) i) = Resolved res \<and> \<not> ok res"
  then show "fst (Card_hsFetch rt fetch path i w) = Inl (JsError (Card_thrown rt res))"
    by (simp add: Card_hsFetch_def Card_thrown_def Let_def)
  show "Card_thrown rt (res\<lparr>res_headers := h\<rparr>) = Card_thrown rt res" for h
    by (simp add: Card_thrown_def Card_error_message_def split: jsval.splits)
  show "Card_thrown rt res = string_of_nat (res_status res) @ '' '' @ res_text res"
    if "JSON_parse rt (res_text res) = None"
    using that by (simp add: Card_thrown_def Card_error_message_def decode_def)
  show "Card_thrown rt res = string_of_nat (res_status res) @ '' '' @ s"
    if "JSON_parse rt (res_text res) = Some (VStr s)" for s
    using that by (simp add: Card_thrown_def Card_error_message_def decode_def)
  show "Card_thrown rt res = ToString rt m"
    if "JSON_parse rt (res_text res) = Some j \<and> (\<forall>s. j \<noteq> VStr s)
              \<and> get_prop j ''message'' = Some m \<and> truthy m" for j m
    using that by (cases j) (simp_all add: Card_thrown_def Card_error_message_def decode_def)
  show "Card_thrown rt res = JSON_stringify rt j"
    if "JSON_parse rt (res_text res) = Some j \<and> (\<forall>s. j \<noteq> VStr s)
              \<and> (\<forall>m. get_prop j ''message'' = Some m \<longrightarrow> \<not> truthy m)" for j
    using that
    by (cases j) (auto simp: Card_thrown_def Card_error_message_def decode_def split: option.splits)
qed

theorem hsFetch_error_witness:
  "always (Resolved timeout_500) (make_request (View_BASE @ ''/api/login'') (login_init sample_rt (ui fresh_world)))
     = Resolved timeout_500
   \<and> \<not> ok timeout_500
   \<and> fst (View_hsFetch sample_rt (always (Resolved timeout_500)) ''/api/login''
          (login_init sample_rt (ui fresh_world)) fresh_world)
     = Inl (JsError (''URL: https://hlaprint.com/api/login'' @ newline @ ''Status: 500'' @ newline
          @ ''Proxy-Error: upstream timeout'' @ newline @ ''Body: Internal error''))
   \<and> sublist ''upstream timeout'' (detail (View_BASE @ ''/api/login'') timeout_500)
   \<and> suffix ''Body: Internal error'' (detail (View_BASE @ ''/api/login'') timeout_500)
   \<and> JSON_parse sample_rt (res_text timeout_500) = None
   \<and> fst (Card_hsFetch sample_rt (always (Resolved timeout_500)) ''/api/login''
          (login_init sample_rt (ui fresh_world)) fresh_world)
     = Inl (JsError ''500 Internal error'')
   \<and> \<not> ok oops_500
   \<and> JSON_parse sample_rt (res_text oops_500) = Some (VStr ''oops'')
   \<and> fst (Card_hsFetch sample_rt (always (Resolved oops_500)) ''/api/login''
          (login_init sample_rt (ui fresh_world)) fresh_world)
     = Inl (JsError ''500 oops'')"
proof -
  have f: "always (Resolved r) q = Resolved r" for r q
    by (simp add: always_def)
  have n: "\<not> ok timeout_500" "\<not> ok oops_500"
    by (simp_all add: ok_def timeout_500_def oops_500_def)
  have d: "detail (View_BASE @ ''/api/login'') timeout_500 =
      ''URL: https://hlaprint.com/api/login'' @ newline @ ''Status: 500'' @ newline
          @ ''Proxy-Error: upstream timeout'' @ newline @ ''Body: Internal error''"
    by (simp add: detail_def View_BASE_def timeout_500_def xErr_def or_default_def string_of_nat_500)
  have p: "JSON_parse sample_rt (res_text timeout_500) = None"
    "JSON_parse sample_rt (res_text oops_500) = Some (VStr ''oops'')"
    by (simp_all add: sample_rt_def sample_parse_def timeout_500_def oops_500_def)
  have h: "map_of (res_headers timeout_500) ''x-hubspot-external-error'' = Some ''upstream timeout''"
    "res_text timeout_500 = ''Internal error''"
    "res_status timeout_500 = 500" "res_status oops_500 = 500"
    by (simp_all add: timeout_500_def oops_500_def)
  from hsFetch_error
         [where fetch = "always (Resolved timeout_500)" and path = "''/api/login''"
            and i = "login_init sample_rt (ui fresh_world)" and res = timeout_500
            and rt = sample_rt and w = fresh_world]
       hsFetch_error
         [where fetch = "always (Resolved oops_500)" and path = "''/api/login''"
            and i = "login_init sample_rt (ui fresh_world)" and res = oops_500
            and rt = sample_rt and w = fresh_world]
       f n d p h
  show ?thesis
    by (simp add: string_of_nat_500)
qed

text \<open>
  The claim as it stands speaks of the request wrapper; on the same response the wrapper
  of \<open>HlaPrintCard\<close> throws a message without the header.
\<close>

theorem Card_hsFetch_drops_header:
  "\<not> ok timeout_500
   \<and> fst (Card_hsFetch sample_rt (always (Resolved timeout_500)) ''/api/login''
          (login_init sample_rt (ui fresh_world)) fresh_world)
     = Inl (JsError ''500 Internal error'')
   \<and> \<not> sublist ''upstream timeout'' ''500 Internal error''"
proof -
  have "\<not> sublist ''upstream timeout'' ''500 Internal error''"
    by code_simp
  moreover have "sample_parse ''Internal error'' = None"
    by (simp add: sample_parse_def)
  ultimately show ?thesis
    by (simp add: Card_hsFetch_def Let_def always_def ok_def timeout_500_def decode_def
        sample_rt_def Card_error_message_def string_of_nat_500)
qed

section \<open>Failures that nobody sees (C3)\<close>

text \<open>
  In \<open>HlaPrintCard\<close> every failure ends in an error toast with a message that is not
  empty: a login that does not succeed, and a submission of a valid draft whose request
  is rejected or answered with a status outside 200..299.
\<close>

lemma or_default_nonempty: "d \<noteq> [] \<Longrightarrow> or_default m d \<noteq> []"
  by (simp add: or_default_def)

lemma Card_login_failure_is_shown:
  assumes "\<forall>t. \<not> login_succeeds rt (fetch (Card_login_request rt (ui w))) t"
  shows "\<exists>m. m \<noteq> [] \<and>
    toast (ui (Card_doLogin rt fetch w)) = Some \<lparr>toast_type = Error, msg = m\<rparr>"
proof -
  from assms obtain e where "fst (Card_login_try rt fetch w) = Inl e"
    by (cases "fst (Card_login_try rt fetch w)") (auto simp: login_try_Inr_iff)
  then show ?thesis
    by (cases e) (simp add: Card_doLogin_cases setToast_def or_default_nonempty)
qed

lemma Card_print_failure_is_shown:
  assumes "validateBeforeSend rt (ui w) = None"
    and "fetch (Card_print_request rt (ui w)) = Rejected e
         \<or> (\<exists>res. fetch (Card_print_request rt (ui w)) = Resolved res \<and> \<not> ok res)"
  shows "\<exists>m. m \<noteq> [] \<and>
    toast (ui (Card_sendPrint rt fetch w)) = Some \<lparr>toast_type = Error, msg = m\<rparr>"
  using assms
  by (cases e)
    (auto simp: Card_sendPrint_def Card_hsFetch_def Card_print_request_def Let_def setStage_def
      setToast_def or_default_nonempty)

lemma View_status_failure_is_shown:
  assumes "fetch (make_request (View_BASE @ path) i) = Resolved res" and "\<not> ok res"
  shows "toast (ui (snd (View_hsFetch rt fetch path i w)))
    = Some \<lparr>toast_type = Error, msg = detail (View_BASE @ path) res\<rparr>"
  using assms by (simp add: View_hsFetch_def Let_def setToast_def)

text \<open>
  C3 says that every failure of the login or of the submission ends in a message on the
  screen. \<open>HlaPrintCard\<close> does that: its \<open>catch\<close> blocks set the toast. In
  \<open>HlaPrintCardView\<close> the \<open>catch\<close> blocks are empty, on the ground that \<open>hsFetch\<close> has
  shown the error already; \<open>hsFetch\<close> shows it for a status outside 200..299 only. After
  a login whose response is 200 without a token, after a login whose request is rejected
  and after a submission whose request is rejected, the toast of \<open>HlaPrintCardView\<close> is
  as empty as before, where \<open>HlaPrintCard\<close> shows the error.
\<close>

theorem View_failures_stay_silent:
  "ok no_token_200
   \<and> token_of sample_rt no_token_200 = None
   \<and> toast (ui fresh_world) = None
   \<and> toast (ui (View_doLogin sample_rt (always (Resolved no_token_200)) fresh_world)) = None
   \<and> toast (ui (View_doLogin sample_rt (always network_down) fresh_world)) = None
   \<and> validateBeforeSend sample_rt (ui desk_world) = None
   \<and> toast (ui (View_sendPrint sample_rt (always network_down) desk_world)) = None
   \<and> toast (ui (Card_doLogin sample_rt (always (Resolved no_token_200)) fresh_world))
       = Some \<lparr>toast_type = Error, msg = ''Token missing in response''\<rparr>
   \<and> toast (ui (Card_doLogin sample_rt (always network_down) fresh_world))
       = Some \<lparr>toast_type = Error, msg = ''Network error''\<rparr>
   \<and> toast (ui (Card_sendPrint sample_rt (always network_down) desk_world))
       = Some \<lparr>toast_type = Error, msg = ''Network error''\<rparr>"
proof -
  have p: "sample_parse (res_text no_token_200) = Some (VObj [(''status'', VStr ''ok'')])"
    by (simp add: sample_parse_def no_token_200_def)
  have k: "ok no_token_200"
    by (simp add: ok_def no_token_200_def)
  have t: "token_of sample_rt no_token_200 = None"
    by (simp add: token_of_def decode_def sample_rt_def p)
  have f: "toast (ui fresh_world) = None"
    by (simp add: fresh_world_def initial_card_def)
  have v1: "toast (ui (View_doLogin sample_rt (always (Resolved no_token_200)) fresh_world)) = None"
    using k t f
    by (simp add: View_doLogin_cases View_login_try_fst View_login_try_def View_hsFetch_def
        always_def Let_def take_token_cases token_of_def)
  have v2: "toast (ui (View_doLogin sample_rt (always network_down) fresh_world)) = None"
    using f
    by (simp add: View_doLogin_cases View_login_try_fst View_login_try_def View_hsFetch_def
        always_def network_down_def Let_def)
  have d: "validateBeforeSend sample_rt (ui desk_world) = None"
    by (simp add: desk_world_def desk_card_valid)
  have v3: "toast (ui (View_sendPrint sample_rt (always network_down) desk_world)) = None"
    using d
    by (simp add: View_sendPrint_def View_hsFetch_def always_def network_down_def Let_def
        setStage_def desk_world_def desk_card_def)
  have c1: "toast (ui (Card_doLogin sample_rt (always (Resolved no_token_200)) fresh_world))
       = Some \<lparr>toast_type = Error, msg = ''Token missing in response''\<rparr>"
    using k t
    by (simp add: Card_doLogin_cases Card_login_try_fst always_def take_token_cases token_of_def
        setToast_def or_default_def)
  have c2: "toast (ui (Card_doLogin sample_rt (always network_down) fresh_world))
       = Some \<lparr>toast_type = Error, msg = ''Network error''\<rparr>"
    by (simp add: Card_doLogin_cases Card_login_try_fst always_def network_down_def
        setToast_def or_default_def)
  have c3: "toast (ui (Card_sendPrint sample_rt (always network_down) desk_world))
       = Some \<lparr>toast_type = Error, msg = ''Network error''\<rparr>"
    using d
    by (simp add: Card_sendPrint_def Card_hsFetch_def always_def network_down_def Let_def
        setStage_def setToast_def or_default_def)
  from k t f v1 v2 d v3 c1 c2 c3 show ?thesis
    by blast
qed

section \<open>The order of the rules (C4)\<close>

text \<open>
  C4, as amended. \<open>validateBeforeSend\<close> is the first failure of the seven rules taken in
  the order authentication, device name present, device name of at most 23 characters,
  file URL present, range complete, range numeric and in order, copies in bounds; it
  returns \<open>null\<close> exactly when every rule passes; and its result is a function of the
  six cells it reads, so that nothing else of the state matters and nothing is written.
  The copies rule is the one that fails for a number below 1 or above 100: copies that
  are NaN pass it.
\<close>

theorem validate_order:
  "validateBeforeSend rt c = first_failure (spec_rules rt) c
   \<and> ((validateBeforeSend rt c = None) = list_all (\<lambda>r. r c = None) (spec_rules rt))
   \<and> (\<forall>c'. validated_inputs c' = validated_inputs c \<longrightarrow>
         validateBeforeSend rt c' = validateBeforeSend rt c)
   \<and> (rule_copies c = None) = (copies c = NaN \<or> in_bounds (copies c))"
proof -
  have a: "validateBeforeSend rt c = first_failure (spec_rules rt) c"
    by (rule validate_refines)
  have b: "(validateBeforeSend rt c = None) = list_all (\<lambda>r. r c = None) (spec_rules rt)"
    by (simp only: a first_failure_None)
  have "validateBeforeSend rt c' = validateBeforeSend rt c"
    if "validated_inputs c' = validated_inputs c" for c'
    using that
    by (simp add: validated_inputs_def validateBeforeSend_def range_block_def hasStart_def
        hasEnd_def)
  moreover have "(rule_copies c = None) = (copies c = NaN \<or> in_bounds (copies c))"
    by (simp add: rule_copies_def)
  ultimately show ?thesis
    using a b by blast
qed

theorem validate_order_witness:
  "rule_device_required two_faults_card = Some msg_device_required
   \<and> rule_copies two_faults_card = Some msg_copies
   \<and> validateBeforeSend sample_rt two_faults_card = Some msg_device_required
   \<and> validateBeforeSend sample_rt desk_card = None
   \<and> list_all (\<lambda>r. r desk_card = None) (spec_rules sample_rt)
   \<and> validated_inputs (desk_card\<lparr>stage := Login, email := []\<rparr>) = validated_inputs desk_card
   \<and> validateBeforeSend sample_rt (desk_card\<lparr>stage := Login, email := []\<rparr>) = None"
proof -
  have f: "first_failure (spec_rules sample_rt) two_faults_card = Some msg_device_required"
    by (simp add: spec_rules_def rule_auth_def rule_device_required_def card_defs)
  have r: "rule_device_required two_faults_card = Some msg_device_required"
    "rule_copies two_faults_card = Some msg_copies"
    by (simp_all add: rule_device_required_def rule_copies_def in_bounds_def card_defs)
  have i: "validated_inputs (desk_card\<lparr>stage := Login, email := []\<rparr>) = validated_inputs desk_card"
    by (simp add: validated_inputs_def)
  from validate_order [of sample_rt two_faults_card] validate_order [of sample_rt desk_card]
    f r i desk_card_valid
  show ?thesis
    by simp
qed

text \<open>
  The claim as it stands has the copies in bounds as its last rule. With copies that are
  NaN that rule fails, both comparisons of the source are false, and the validator
  returns \<open>null\<close>.
\<close>

theorem validate_order_counterexample:
  "copies nan_copies_card = NaN
   \<and> rule_copies_stated nan_copies_card = Some msg_copies
   \<and> first_failure (stated_rules sample_rt) nan_copies_card = Some msg_copies
   \<and> validateBeforeSend sample_rt nan_copies_card = None"
  by (simp add: validateBeforeSend_def range_block_def stated_rules_def rule_auth_def
      rule_device_required_def rule_device_length_def rule_file_required_def
      rule_range_complete_def rule_range_numeric_def rule_copies_stated_def in_bounds_def
      page_number_def not_before_def card_defs sample_defs)

section \<open>Login (C5, C10)\<close>

text \<open>
  C5. In both cards the \<open>try\<close> block of \<open>doLogin\<close> ends in a thrown error when the
  response to the login request has a status outside 200..299, and in the error
  \<open>Token missing in response\<close> when the status is in 200..299 and the decoded body has
  no token; \<open>doLogin\<close> catches both, so it returns. When the login succeeds with the
  token \<open>t\<close>, the \<open>try\<close> block yields \<open>t\<close>, and after \<open>doLogin\<close> the state holds exactly
  \<open>t\<close> as its token and its stage is ready.
\<close>

theorem login_contract:
  "(\<forall>res. fetch (Card_login_request rt (ui w)) = Resolved res \<and> \<not> ok res \<longrightarrow>
       (\<exists>e. fst (Card_login_try rt fetch w) = Inl e))
   \<and> (\<forall>res. fetch (View_login_request rt (ui w)) = Resolved res \<and> \<not> ok res \<longrightarrow>
       (\<exists>e. fst (View_login_try rt fetch w) = Inl e))
   \<and> (\<forall>res. fetch (Card_login_request rt (ui w)) = Resolved res \<and> ok res
          \<and> token_of rt res = None \<longrightarrow>
       fst (Card_login_try rt fetch w) = Inl (JsError ''Token missing in response''))
   \<and> (\<forall>res. fetch (View_login_request rt (ui w)) = Resolved res \<and> ok res
          \<and> token_of rt res = None \<longrightarrow>
       fst (View_login_try rt fetch w) = Inl (JsError ''Token missing in response''))
   \<and> (\<forall>t. login_succeeds rt (fetch (Card_login_request rt (ui w))) t \<longrightarrow>
       fst (Card_login_try rt fetch w) = Inr t
       \<and> token (ui (Card_doLogin rt fetch w)) = t
       \<and> stage (ui (Card_doLogin rt fetch w)) = Ready)
   \<and> (\<forall>t. login_succeeds rt (fetch (View_login_request rt (ui w))) t \<longrightarrow>
       fst (View_login_try rt fetch w) = Inr t
       \<and> token (ui (View_doLogin rt fetch w)) = t
       \<and> stage (ui (View_doLogin rt fetch w)) = Ready)"
proof (intro conjI allI impI)
  fix res
  assume "fetch (Card_login_request rt (ui w)) = Resolved res \<and> \<not> ok res"
  then show "\<exists>e. fst (Card_login_try rt fetch w) = Inl e"
    by (simp add: Card_login_try_fst)
next
  fix res
  assume "fetch (View_login_request rt (ui w)) = Resolved res \<and> \<not> ok res"
  then show "\<exists>e. fst (View_login_try rt fetch w) = Inl e"
    by (simp add: View_login_try_fst)
next
  fix res
  assume "fetch (Card_login_request rt (ui w)) = Resolved res \<and> ok res \<and> token_of rt res = None"
  then show "fst (Card_login_try rt fetch w) = Inl (JsError ''Token missing in response'')"
    by (simp add: Card_login_try_fst take_token_cases token_of_def)
next
  fix res
  assume "fetch (View_login_request rt (ui w)) = Resolved res \<and> ok res \<and> token_of rt res = None"
  then show "fst (View_login_try rt fetch w) = Inl (JsError ''Token missing in response'')"
    by (simp add: View_login_try_fst take_token_cases token_of_def)
next
  fix t
  assume "login_succeeds rt (fetch (Card_login_request rt (ui w))) t"
  then have a: "fst (Card_login_try rt fetch w) = Inr t"
    by (simp add: login_try_Inr_iff)
  then show "fst (Card_login_try rt fetch w) = Inr t" .
  from a show "token (ui (Card_doLogin rt fetch w)) = t"
    by (simp add: Card_doLogin_cases setStage_def setToast_def setToken_def)
  from a show "stage (ui (Card_doLogin rt fetch w)) = Ready"
    by (simp add: Card_doLogin_cases setStage_def setToast_def setToken_def)
next
  fix t
  assume "login_succeeds rt (fetch (View_login_request rt (ui w))) t"
  then have a: "fst (View_login_try rt fetch w) = Inr t"
    by (simp add: login_try_Inr_iff)
  then show "fst (View_login_try rt fetch w) = Inr t" .
  from a show "token (ui (View_doLogin rt fetch w)) = t"
    by (simp add: View_doLogin_cases setStage_def setToast_def setToken_def)
  from a show "stage (ui (View_doLogin rt fetch w)) = Ready"
    by (simp add: View_doLogin_cases setStage_def setToast_def setToken_def)
qed

theorem login_contract_witness:
  "login_succeeds sample_rt
     (always (Resolved token_200) (Card_login_request sample_rt (ui fresh_world))) (VStr ''T1'')
   \<and> login_succeeds sample_rt
     (always (Resolved token_200) (View_login_request sample_rt (ui fresh_world))) (VStr ''T1'')
   \<and> stage (ui fresh_world) = Login
   \<and> token (ui (Card_doLogin sample_rt (always (Resolved token_200)) fresh_world)) = VStr ''T1''
   \<and> stage (ui (Card_doLogin sample_rt (always (Resolved token_200)) fresh_world)) = Ready
   \<and> token (ui (View_doLogin sample_rt (always (Resolved token_200)) fresh_world)) = VStr ''T1''
   \<and> stage (ui (View_doLogin sample_rt (always (Resolved token_200)) fresh_world)) = Ready
   \<and> ok no_token_200 \<and> token_of sample_rt no_token_200 = None
   \<and> fst (Card_login_try sample_rt (always (Resolved no_token_200)) fresh_world)
       = Inl (JsError ''Token missing in response'')
   \<and> fst (View_login_try sample_rt (always (Resolved no_token_200)) fresh_world)
       = Inl (JsError ''Token missing in response'')"
proof -
  have s: "login_succeeds sample_rt
     (always (Resolved token_200) (Card_login_request sample_rt (ui fresh_world))) (VStr ''T1'')"
    "login_succeeds sample_rt
     (always (Resolved token_200) (View_login_request sample_rt (ui fresh_world))) (VStr ''T1'')"
    by (simp_all add: login_succeeds_def always_def sample_token_of sample_ok)
  have m: "always (Resolved no_token_200) (Card_login_request sample_rt (ui fresh_world))
      = Resolved no_token_200"
    "always (Resolved no_token_200) (View_login_request sample_rt (ui fresh_world))
      = Resolved no_token_200"
    by (simp_all add: always_def)
  have l: "stage (ui fresh_world) = Login"
    by (simp add: fresh_world_def initial_card_def)
  from login_contract [of "always (Resolved token_200)" sample_rt fresh_world]
    login_contract [of "always (Resolved no_token_200)" sample_rt fresh_world]
    s m l sample_token_of sample_ok
  show ?thesis
    by simp
qed

text \<open>
  C10. In both cards a login that does not succeed (the request was rejected, the status
  is outside 200..299, or the decoded body has no truthy token) leaves the token and the
  stage of the state as they were; so a card at the stage login stays there. When the
  token or the stage after \<open>doLogin\<close> differs from before, the login has succeeded,
  and with the very token the state now holds.
\<close>

theorem failed_login_keeps_session:
  "((\<forall>t. \<not> login_succeeds rt (fetch (Card_login_request rt (ui w))) t) \<longrightarrow>
       token (ui (Card_doLogin rt fetch w)) = token (ui w)
       \<and> stage (ui (Card_doLogin rt fetch w)) = stage (ui w))
   \<and> ((\<forall>t. \<not> login_succeeds rt (fetch (View_login_request rt (ui w))) t) \<longrightarrow>
       token (ui (View_doLogin rt fetch w)) = token (ui w)
       \<and> stage (ui (View_doLogin rt fetch w)) = stage (ui w))
   \<and> (token (ui (Card_doLogin rt fetch w)) \<noteq> token (ui w)
        \<or> stage (ui (Card_doLogin rt fetch w)) \<noteq> stage (ui w) \<longrightarrow>
       login_succeeds rt (fetch (Card_login_request rt (ui w))) (token (ui (Card_doLogin rt fetch w))))
   \<and> (token (ui (View_doLogin rt fetch w)) \<noteq> token (ui w)
        \<or> stage (ui (View_doLogin rt fetch w)) \<noteq> stage (ui w) \<longrightarrow>
       login_succeeds rt (fetch (View_login_request rt (ui w))) (token (ui (View_doLogin rt fetch w))))"
proof -
  have c: "token (ui (Card_doLogin rt fetch w)) = token (ui w)
       \<and> stage (ui (Card_doLogin rt fetch w)) = stage (ui w)"
    if "fst (Card_login_try rt fetch w) = Inl e" for e
    using that Card_login_try_ui [of rt fetch w]
    by (cases e) (simp add: Card_doLogin_cases setToast_def)
  have v: "token (ui (View_doLogin rt fetch w)) = token (ui w)
       \<and> stage (ui (View_doLogin rt fetch w)) = stage (ui w)"
    if "fst (View_login_try rt fetch w) = Inl e" for e
    using that View_login_try_ui [of rt fetch w]
    by (simp add: View_doLogin_cases)
  have c': "token (ui (Card_doLogin rt fetch w)) = t"
    if "fst (Card_login_try rt fetch w) = Inr t" for t
    using that by (simp add: Card_doLogin_cases setStage_def setToast_def setToken_def)
  have v': "token (ui (View_doLogin rt fetch w)) = t"
    if "fst (View_login_try rt fetch w) = Inr t" for t
    using that by (simp add: View_doLogin_cases setStage_def setToast_def setToken_def)
  show ?thesis
  proof (intro conjI impI)
    assume a: "\<forall>t. \<not> login_succeeds rt (fetch (Card_login_request rt (ui w))) t"
    then obtain e where "fst (Card_login_try rt fetch w) = Inl e"
      by (cases "fst (Card_login_try rt fetch w)") (auto simp: login_try_Inr_iff)
    then show "token (ui (Card_doLogin rt fetch w)) = token (ui w)"
      and "stage (ui (Card_doLogin rt fetch w)) = stage (ui w)"
      using c by blast+
  next
    assume a: "\<forall>t. \<not> login_succeeds rt (fetch (View_login_request rt (ui w))) t"
    then obtain e where "fst (View_login_try rt fetch w) = Inl e"
      by (cases "fst (View_login_try rt fetch w)") (auto simp: login_try_Inr_iff)
    then show "token (ui (View_doLogin rt fetch w)) = token (ui w)"
      and "stage (ui (View_doLogin rt fetch w)) = stage (ui w)"
      using v by blast+
  next
    assume a: "token (ui (Card_doLogin rt fetch w)) \<noteq> token (ui w)
        \<or> stage (ui (Card_doLogin rt fetch w)) \<noteq> stage (ui w)"
    show "login_succeeds rt (fetch (Card_login_request rt (ui w))) (token (ui (Card_doLogin rt fetch w)))"
    proof (cases "fst (Card_login_try rt fetch w)")
      case (Inl e)
      with a c show ?thesis by blast
    next
      case (Inr t)
      with c' [OF Inr] show ?thesis by (simp add: login_try_Inr_iff [symmetric])
    qed
  next
    assume a: "token (ui (View_doLogin rt fetch w)) \<noteq> token (ui w)
        \<or> stage (ui (View_doLogin rt fetch w)) \<noteq> stage (ui w)"
    show "login_succeeds rt (fetch (View_login_request rt (ui w))) (token (ui (View_doLogin rt fetch w)))"
    proof (cases "fst (View_login_try rt fetch w)")
      case (Inl e)
      with a v show ?thesis by blast
    next
      case (Inr t)
      with v' [OF Inr] show ?thesis by (simp add: login_try_Inr_iff [symmetric])
    qed
  qed
qed

theorem failed_login_keeps_session_witness:
  "token_of sample_rt no_token_200 = None
   \<and> token (ui fresh_world) = VStr []
   \<and> stage (ui fresh_world) = Login
   \<and> token (ui (Card_doLogin sample_rt (always (Resolved no_token_200)) fresh_world)) = VStr []
   \<and> stage (ui (Card_doLogin sample_rt (always (Resolved no_token_200)) fresh_world)) = Login
   \<and> token (ui (View_doLogin sample_rt (always (Resolved no_token_200)) fresh_world)) = VStr []
   \<and> stage (ui (View_doLogin sample_rt (always (Resolved no_token_200)) fresh_world)) = Login
   \<and> token (ui (Card_doLogin sample_rt (always (Resolved timeout_500)) fresh_world)) = VStr []
   \<and> stage (ui (View_doLogin sample_rt (always network_down) fresh_world)) = Login"
proof -
  have n: "\<forall>t. \<not> login_succeeds sample_rt (always (Resolved no_token_200) req) t"
    "\<forall>t. \<not> login_succeeds sample_rt (always (Resolved timeout_500) req) t"
    "\<forall>t. \<not> login_succeeds sample_rt (always network_down req) t" for req
    by (simp_all add: login_succeeds_def always_def network_down_def sample_token_of sample_ok)
  have l: "token (ui fresh_world) = VStr []" "stage (ui fresh_world) = Login"
    by (simp_all add: fresh_world_def initial_card_def)
  from failed_login_keeps_session [of sample_rt "always (Resolved no_token_200)" fresh_world]
    failed_login_keeps_session [of sample_rt "always (Resolved timeout_500)" fresh_world]
    failed_login_keeps_session [of sample_rt "always network_down" fresh_world]
    n l sample_token_of
  show ?thesis
    by simp
qed

section \<open>The range rules (C6)\<close>

text \<open>
  C6, as amended. A range field is set when it has a character that \<open>trim\<close> keeps, and
  the four earlier rules are those of the token, the device name present, its length and
  the file URL. In each case below, when an earlier rule fails the validator returns the
  error of the first earlier rule that fails, which is none of the range errors. When all
  four pass: if exactly one of rangeStart and rangeEnd is set, it returns the
  range-incomplete error; if both are unset, it accepts on the range rules, and returns
  what the copies rule gives; if both are set, it rejects with the error of the numeric
  rule, one of the range errors, unless each is a page number (an integer of at least 1)
  and the end is not before the start; and if both are set, each is a page number and the
  end is not before the start, it accepts on the range rules and returns what the copies
  rule gives.
\<close>

theorem range_rules:
  "(hasStart c \<noteq> hasEnd c \<longrightarrow>
      validateBeforeSend rt c =
        (case first_failure earlier_rules c of
           Some e \<Rightarrow> Some e
         | None \<Rightarrow> Some msg_range_incomplete))
   \<and> (\<not> hasStart c \<and> \<not> hasEnd c \<longrightarrow>
      validateBeforeSend rt c =
        (case first_failure earlier_rules c of Some e \<Rightarrow> Some e | None \<Rightarrow> rule_copies c)
      \<and> validateBeforeSend rt c \<notin> Some ` set range_errors)
   \<and> (hasStart c \<and> hasEnd c \<and> \<not> range_ok rt c \<longrightarrow>
      validateBeforeSend rt c =
        (case first_failure earlier_rules c of
           Some e \<Rightarrow> Some e
         | None \<Rightarrow> rule_range_numeric rt c)
      \<and> rule_range_numeric rt c \<in> Some ` set range_errors
      \<and> validateBeforeSend rt c \<noteq> None)
   \<and> (hasStart c \<and> hasEnd c \<and> range_ok rt c \<longrightarrow>
      validateBeforeSend rt c =
        (case first_failure earlier_rules c of Some e \<Rightarrow> Some e | None \<Rightarrow> rule_copies c)
      \<and> validateBeforeSend rt c \<notin> Some ` set range_errors)
   \<and> (\<forall>e. first_failure earlier_rules c = Some e \<longrightarrow> e \<notin> set range_errors)"
proof -
  have accept: "validateBeforeSend rt c \<notin> Some ` set range_errors"
    if "validateBeforeSend rt c =
        (case first_failure earlier_rules c of Some e \<Rightarrow> Some e | None \<Rightarrow> rule_copies c)"
    using that rule_copies_not_range [of c] earlier_not_range [of c]
    by (cases "first_failure earlier_rules c") auto
  show ?thesis
  proof (intro conjI allI impI)
    assume "hasStart c \<noteq> hasEnd c"
    then show "validateBeforeSend rt c =
        (case first_failure earlier_rules c of
           Some e \<Rightarrow> Some e
         | None \<Rightarrow> Some msg_range_incomplete)"
      by (simp add: validate_earlier rule_range_complete_def split: option.splits)
  next
    assume a: "\<not> hasStart c \<and> \<not> hasEnd c"
    then show b: "validateBeforeSend rt c =
        (case first_failure earlier_rules c of Some e \<Rightarrow> Some e | None \<Rightarrow> rule_copies c)"
      by (simp add: validate_earlier rule_range_complete_def rule_range_numeric_def
          split: option.splits)
    show "validateBeforeSend rt c \<notin> Some ` set range_errors"
      by (rule accept [OF b])
  next
    assume a: "hasStart c \<and> hasEnd c \<and> \<not> range_ok rt c"
    then obtain m where m: "rule_range_numeric rt c = Some m"
      using range_numeric_None [of c rt] by (cases "rule_range_numeric rt c") auto
    with a show b: "validateBeforeSend rt c =
        (case first_failure earlier_rules c of
           Some e \<Rightarrow> Some e
         | None \<Rightarrow> rule_range_numeric rt c)"
      by (simp add: validate_earlier rule_range_complete_def split: option.splits)
    from m range_numeric_errors [OF m]
    show "rule_range_numeric rt c \<in> Some ` set range_errors"
      by simp
    from b m show "validateBeforeSend rt c \<noteq> None"
      by (simp split: option.splits)
  next
    assume a: "hasStart c \<and> hasEnd c \<and> range_ok rt c"
    then have "rule_range_numeric rt c = None"
      by (simp add: range_numeric_None)
    with a show b: "validateBeforeSend rt c =
        (case first_failure earlier_rules c of Some e \<Rightarrow> Some e | None \<Rightarrow> rule_copies c)"
      by (simp add: validate_earlier rule_range_complete_def split: option.splits)
    show "validateBeforeSend rt c \<notin> Some ` set range_errors"
      by (rule accept [OF b])
  next
    fix e
    assume "first_failure earlier_rules c = Some e"
    then show "e \<notin> set range_errors"
      by (rule earlier_not_range)
  qed
qed

lemma sample_earlier:
  "first_failure earlier_rules desk_card = None"
  "first_failure earlier_rules open_range_card = None"
  "first_failure earlier_rules backwards_card = None"
  "first_failure earlier_rules no_range_card = None"
  "first_failure earlier_rules no_file_open_range_card = Some msg_file_required"
  by (simp_all add: earlier_rules_def rule_auth_def rule_device_required_def
      rule_device_length_def rule_file_required_def card_defs)

theorem range_rules_witness:
  "hasStart open_range_card \<noteq> hasEnd open_range_card
   \<and> validateBeforeSend sample_rt open_range_card = Some msg_range_incomplete
   \<and> hasStart no_file_open_range_card \<noteq> hasEnd no_file_open_range_card
   \<and> validateBeforeSend sample_rt no_file_open_range_card = Some msg_file_required
   \<and> msg_file_required \<notin> set range_errors
   \<and> \<not> hasStart no_range_card \<and> \<not> hasEnd no_range_card
   \<and> validateBeforeSend sample_rt no_range_card = None
   \<and> hasStart backwards_card \<and> hasEnd backwards_card \<and> \<not> range_ok sample_rt backwards_card
   \<and> validateBeforeSend sample_rt backwards_card = Some msg_end_before_start
   \<and> hasStart desk_card \<and> hasEnd desk_card \<and> range_ok sample_rt desk_card
   \<and> validateBeforeSend sample_rt desk_card \<notin> Some ` set range_errors"
proof -
  have a: "hasStart open_range_card \<noteq> hasEnd open_range_card"
    "hasStart no_file_open_range_card \<noteq> hasEnd no_file_open_range_card"
    by (simp_all add: card_defs sample_defs)
  have b: "\<not> hasStart no_range_card \<and> \<not> hasEnd no_range_card"
    "rule_copies no_range_card = None"
    by (simp_all add: rule_copies_def in_bounds_def card_defs sample_defs)
  have c: "hasStart backwards_card \<and> hasEnd backwards_card \<and> \<not> range_ok sample_rt backwards_card"
    by (simp add: range_ok_def page_number_def not_before_def card_defs sample_defs)
  have c2: "rule_range_numeric sample_rt backwards_card = Some msg_end_before_start"
    by (simp add: rule_range_numeric_def page_number_def not_before_def card_defs sample_defs)
  have d: "hasStart desk_card \<and> hasEnd desk_card \<and> range_ok sample_rt desk_card"
    by (simp add: range_ok_def page_number_def not_before_def card_defs sample_defs)
  from range_rules [of open_range_card sample_rt] a sample_earlier
  have a': "validateBeforeSend sample_rt open_range_card = Some msg_range_incomplete"
    by simp
  from range_rules [of no_file_open_range_card sample_rt] a sample_earlier
  have a'': "validateBeforeSend sample_rt no_file_open_range_card = Some msg_file_required"
    "msg_file_required \<notin> set range_errors"
    by simp_all
  from range_rules [of no_range_card sample_rt] b sample_earlier
  have b': "validateBeforeSend sample_rt no_range_card = None"
    by simp
  from range_rules [of backwards_card sample_rt] c c2 sample_earlier
  have c': "validateBeforeSend sample_rt backwards_card = Some msg_end_before_start"
    by simp
  from range_rules [of desk_card sample_rt] d
  have d': "validateBeforeSend sample_rt desk_card \<notin> Some ` set range_errors"
    by blast
  from a b c d a' a'' b' c' d' show ?thesis
    by blast
qed

text \<open>
  The claim as it stands gives the range-incomplete error whenever exactly one field is
  set; with no file URL the error is that of the file URL.
\<close>

theorem range_incomplete_counterexample:
  "hasStart no_file_open_range_card \<and> \<not> hasEnd no_file_open_range_card
   \<and> validateBeforeSend sample_rt no_file_open_range_card = Some msg_file_required
   \<and> msg_file_required \<noteq> msg_range_incomplete"
  by (simp add: validateBeforeSend_def card_defs sample_defs msg_defs)

section \<open>The copies rule (C7)\<close>

text \<open>
  C7, as amended. The six earlier rules are the seven without the copies rule. For every
  number of copies outside 1..100 (a finite number below 1 or above 100, or an infinity)
  the validator rejects: with the error of the first earlier rule that fails, and with
  the copies error when all six pass. For every number of copies inside 1..100 the copies
  rule does not reject: the result is that of the six earlier rules. Copies that are NaN
  are not rejected by the copies rule either: both comparisons of the source are false,
  and the result is that of the six earlier rules.
\<close>

theorem copies_rule:
  "(copies c \<noteq> NaN \<and> \<not> in_bounds (copies c) \<longrightarrow>
      validateBeforeSend rt c =
        (case first_failure (rules_before_copies rt) c of
           Some e \<Rightarrow> Some e
         | None \<Rightarrow> Some msg_copies)
      \<and> validateBeforeSend rt c \<noteq> None)
   \<and> (in_bounds (copies c) \<longrightarrow>
      validateBeforeSend rt c = first_failure (rules_before_copies rt) c)
   \<and> (copies c = NaN \<longrightarrow>
      validateBeforeSend rt c = first_failure (rules_before_copies rt) c)"
  by (auto simp: validate_before_copies rule_copies_def split: option.splits)

lemma sample_before_copies:
  "first_failure (rules_before_copies sample_rt) desk_card = None"
  "first_failure (rules_before_copies sample_rt) many_copies_card = None"
  "first_failure (rules_before_copies sample_rt) nan_copies_card = None"
  "first_failure (rules_before_copies sample_rt) no_file_no_copies_card = Some msg_file_required"
  by (simp_all add: rules_before_copies_def rule_auth_def rule_device_required_def
      rule_device_length_def rule_file_required_def rule_range_complete_def
      rule_range_numeric_def page_number_def not_before_def card_defs sample_defs)

theorem copies_rule_witness:
  "copies many_copies_card \<noteq> NaN \<and> \<not> in_bounds (copies many_copies_card)
   \<and> validateBeforeSend sample_rt many_copies_card = Some msg_copies
   \<and> copies no_file_no_copies_card \<noteq> NaN \<and> \<not> in_bounds (copies no_file_no_copies_card)
   \<and> validateBeforeSend sample_rt no_file_no_copies_card = Some msg_file_required
   \<and> in_bounds (copies desk_card)
   \<and> validateBeforeSend sample_rt desk_card = None
   \<and> copies nan_copies_card = NaN
   \<and> validateBeforeSend sample_rt nan_copies_card = None"
proof -
  have a: "copies many_copies_card \<noteq> NaN \<and> \<not> in_bounds (copies many_copies_card)"
    "copies no_file_no_copies_card \<noteq> NaN \<and> \<not> in_bounds (copies no_file_no_copies_card)"
    "in_bounds (copies desk_card)" "copies nan_copies_card = NaN"
    by (simp_all add: in_bounds_def card_defs)
  from copies_rule [of many_copies_card sample_rt] copies_rule [of no_file_no_copies_card sample_rt]
    copies_rule [of desk_card sample_rt] copies_rule [of nan_copies_card sample_rt]
    a sample_before_copies
  show ?thesis
    by simp
qed

text \<open>
  The claim as it stands gives the copies error for whatever is outside 1..100. With no
  file URL and no copies the error is that of the file URL; and copies that are NaN,
  which are not in 1..100, are not rejected at all.
\<close>

theorem copies_error_counterexample:
  "\<not> in_bounds (copies no_file_no_copies_card)
   \<and> copies no_file_no_copies_card = Fin 0
   \<and> validateBeforeSend sample_rt no_file_no_copies_card = Some msg_file_required
   \<and> msg_file_required \<noteq> msg_copies
   \<and> \<not> in_bounds (copies nan_copies_card)
   \<and> validateBeforeSend sample_rt nan_copies_card = None"
  by (simp add: validateBeforeSend_def range_block_def in_bounds_def card_defs sample_defs
      msg_defs)

section \<open>The length of the device name (C8)\<close>

text \<open>
  C8, as amended. For every device name of more than 23 characters the validator rejects,
  whatever the other fields of the draft: with the length error whenever the state holds
  a token, and with the login error, which is checked first, when it holds none. A device
  name of exactly 23 characters passes the length rule, and the result is never the
  length error.
\<close>

theorem device_name_length_rule:
  "(length (deviceName c) > 23 \<longrightarrow>
      validateBeforeSend rt c = (if truthy (token c) then Some msg_device_length else Some msg_login))
   \<and> (length (deviceName c) = 23 \<longrightarrow>
      rule_device_length c = None \<and> validateBeforeSend rt c \<noteq> Some msg_device_length)"
proof (intro conjI impI)
  assume "length (deviceName c) > 23"
  then show "validateBeforeSend rt c = (if truthy (token c) then Some msg_device_length else Some msg_login)"
    by (auto simp: validateBeforeSend_def)
next
  assume "length (deviceName c) = 23"
  then show "rule_device_length c = None"
    by (simp add: rule_device_length_def)
next
  assume a: "length (deviceName c) = 23"
  have "range_block rt c \<noteq> Some msg_device_length"
    using range_block_errors [of rt c msg_device_length]
    by (auto simp: range_errors_def msg_defs)
  with a show "validateBeforeSend rt c \<noteq> Some msg_device_length"
    by (auto simp: validateBeforeSend_def msg_defs split: if_splits option.splits)
qed

theorem device_name_length_rule_witness:
  "length (deviceName long_name_card) = 24 \<and> truthy (token long_name_card)
   \<and> validateBeforeSend sample_rt long_name_card = Some msg_device_length
   \<and> length (deviceName full_name_card) = 23
   \<and> rule_device_length full_name_card = None
   \<and> validateBeforeSend sample_rt full_name_card \<noteq> Some msg_device_length"
proof -
  have a: "length (deviceName long_name_card) = 24" "truthy (token long_name_card)"
    "length (deviceName full_name_card) = 23"
    by (simp_all add: card_defs)
  from device_name_length_rule [of long_name_card sample_rt]
    device_name_length_rule [of full_name_card sample_rt] a
  show ?thesis
    by simp
qed

text \<open>
  The claim as it stands gives the length error regardless of the other fields; without
  a token the error is that of the login.
\<close>

theorem device_name_length_counterexample:
  "length (deviceName anonymous_long_name_card) = 24
   \<and> validateBeforeSend sample_rt anonymous_long_name_card = Some msg_login
   \<and> msg_login \<noteq> msg_device_length"
  by (simp add: validateBeforeSend_def card_defs msg_defs)

section \<open>The submission (C9)\<close>

text \<open>
  C9. In both cards, when \<open>validateBeforeSend\<close> returns an error, \<open>sendPrint\<close> does
  nothing but show that error, word for word, as an error toast: no request is sent and
  the stage is what it was. When the draft is valid, exactly one request is sent, and
  whatever its outcome the stage after \<open>sendPrint\<close> is ready. So a card that is not
  sending before \<open>sendPrint\<close> is not sending after it. The request always settles here:
  it is rejected or it resolves.
\<close>

theorem sendPrint_flow:
  "(\<forall>err. validateBeforeSend rt (ui w) = Some err \<longrightarrow>
       Card_sendPrint rt fetch w = setToast Error err w
       \<and> View_sendPrint rt fetch w = setToast Error err w
       \<and> sent (Card_sendPrint rt fetch w) = sent w
       \<and> sent (View_sendPrint rt fetch w) = sent w
       \<and> toast (ui (Card_sendPrint rt fetch w)) = Some \<lparr>toast_type = Error, msg = err\<rparr>
       \<and> toast (ui (View_sendPrint rt fetch w)) = Some \<lparr>toast_type = Error, msg = err\<rparr>
       \<and> stage (ui (Card_sendPrint rt fetch w)) = stage (ui w)
       \<and> stage (ui (View_sendPrint rt fetch w)) = stage (ui w))
   \<and> (validateBeforeSend rt (ui w) = None \<longrightarrow>
       stage (ui (Card_sendPrint rt fetch w)) = Ready
       \<and> stage (ui (View_sendPrint rt fetch w)) = Ready
       \<and> sent (Card_sendPrint rt fetch w) = sent w @ [Card_print_request rt (ui w)]
       \<and> sent (View_sendPrint rt fetch w) = sent w @ [View_print_request rt (ui w)])
   \<and> (stage (ui w) \<noteq> Sending \<longrightarrow>
       stage (ui (Card_sendPrint rt fetch w)) \<noteq> Sending
       \<and> stage (ui (View_sendPrint rt fetch w)) \<noteq> Sending)"
proof (intro conjI allI impI)
  fix err
  assume e: "validateBeforeSend rt (ui w) = Some err"
  then show c: "Card_sendPrint rt fetch w = setToast Error err w"
    by (simp add: Card_sendPrint_def)
  from e show v: "View_sendPrint rt fetch w = setToast Error err w"
    by (simp add: View_sendPrint_def)
  show "sent (Card_sendPrint rt fetch w) = sent w" "sent (View_sendPrint rt fetch w) = sent w"
    "toast (ui (Card_sendPrint rt fetch w)) = Some \<lparr>toast_type = Error, msg = err\<rparr>"
    "toast (ui (View_sendPrint rt fetch w)) = Some \<lparr>toast_type = Error, msg = err\<rparr>"
    "stage (ui (Card_sendPrint rt fetch w)) = stage (ui w)"
    "stage (ui (View_sendPrint rt fetch w)) = stage (ui w)"
    by (simp_all add: c v setToast_def)
next
  assume n: "validateBeforeSend rt (ui w) = None"
  then show "stage (ui (Card_sendPrint rt fetch w)) = Ready"
    by (rule Card_sendPrint_Ready)
  from n show "stage (ui (View_sendPrint rt fetch w)) = Ready"
    by (rule View_sendPrint_Ready)
  from n show "sent (Card_sendPrint rt fetch w) = sent w @ [Card_print_request rt (ui w)]"
    by (rule Card_sendPrint_sent)
  from n show "sent (View_sendPrint rt fetch w) = sent w @ [View_print_request rt (ui w)]"
    by (rule View_sendPrint_sent)
next
  assume s: "stage (ui w) \<noteq> Sending"
  show "stage (ui (Card_sendPrint rt fetch w)) \<noteq> Sending"
  proof (cases "validateBeforeSend rt (ui w)")
    case None
    then show ?thesis by (simp add: Card_sendPrint_Ready)
  next
    case (Some err)
    with s show ?thesis by (simp add: Card_sendPrint_def setToast_def)
  qed
  show "stage (ui (View_sendPrint rt fetch w)) \<noteq> Sending"
  proof (cases "validateBeforeSend rt (ui w)")
    case None
    then show ?thesis by (simp add: View_sendPrint_Ready)
  next
    case (Some err)
    with s show ?thesis by (simp add: View_sendPrint_def setToast_def)
  qed
qed

theorem sendPrint_flow_witness:
  "validateBeforeSend sample_rt (ui \<lparr>ui = anonymous_card, sent = []\<rparr>) = Some msg_login
   \<and> sent (View_sendPrint sample_rt (always network_down) \<lparr>ui = anonymous_card, sent = []\<rparr>) = []
   \<and> toast (ui (Card_sendPrint sample_rt (always network_down) \<lparr>ui = anonymous_card, sent = []\<rparr>))
       = Some \<lparr>toast_type = Error, msg = msg_login\<rparr>
   \<and> validateBeforeSend sample_rt (ui desk_world) = None
   \<and> stage (ui desk_world) \<noteq> Sending
   \<and> stage (ui (Card_sendPrint sample_rt (always network_down) desk_world)) = Ready
   \<and> stage (ui (View_sendPrint sample_rt (always network_down) desk_world)) = Ready
   \<and> length (sent (View_sendPrint sample_rt (always network_down) desk_world)) = 1"
proof -
  have a: "validateBeforeSend sample_rt (ui \<lparr>ui = anonymous_card, sent = []\<rparr>) = Some msg_login"
    by (simp add: anonymous_card_login)
  have b: "validateBeforeSend sample_rt (ui desk_world) = None"
    by (simp add: desk_world_def desk_card_valid)
  have c: "stage (ui desk_world) \<noteq> Sending"
    by (simp add: desk_world_def desk_card_def)
  from a b c
    sendPrint_flow [of sample_rt "\<lparr>ui = anonymous_card, sent = []\<rparr>" "always network_down"]
    sendPrint_flow [of sample_rt desk_world "always network_down"]
  show ?thesis
    by (simp add: desk_world_def setToast_def)
qed

end
